theory Spec2Isabelle
  imports Complex_Main
begin

section \<open>JavaScript values\<close>

text \<open>
  The handlers of \<^verbatim>\<open>src/index.ts\<close> receive JavaScript values (a parsed JSON body, path
  parameters, form fields) and answer with JavaScript values serialised by \<^verbatim>\<open>c.json\<close>.
  A number is NaN, an infinity or a finite binary64 value, written as the rational it
  stands for (the sign of zero is not kept). The texts of a recipe are passed through
  unchanged and are lists of 8-bit characters; the text of a path parameter is parsed, so
  it is a list of UTF-16 code units.
\<close>

datatype jsnum = NaN | PosInf | NegInf | Fin rat

datatype jsval =
    JUndefined
  | JNull
  | JBool bool
  | JNumber jsnum
  | JString string
  | JArray "jsval list"
  | JObject "(string \<times> jsval) list"

text \<open>Reading a property: a key the object does not have reads as \<^verbatim>\<open>undefined\<close>.\<close>

definition get_prop :: "(string \<times> jsval) list \<Rightarrow> string \<Rightarrow> jsval" where
  "get_prop kvs k = (case map_of kvs k of None \<Rightarrow> JUndefined | Some v \<Rightarrow> v)"

section \<open>Number(string): the coercion behind \<^verbatim>\<open>z.coerce.number()\<close>\<close>

text \<open>
  \<^verbatim>\<open>z.coerce.number()\<close> applies \<^verbatim>\<open>Number(input)\<close> and then the check of \<^verbatim>\<open>z.number()\<close>.
  On a string \<^verbatim>\<open>Number\<close> is ECMAScript's StringToNumber: white space is trimmed, the
  empty string is 0, and the rest must be one StrNumericLiteral (a signed decimal
  literal with optional fraction and exponent, \<^verbatim>\<open>Infinity\<close>, or an unsigned binary, octal
  or hexadecimal integer); anything else is NaN. The mathematical value of the literal
  is then rounded to the nearest binary64 number, ties to even, and to an infinity when it
  is too large. Every digit of the literal counts, as in V8 (ECMAScript would let an engine
  stop at the twentieth significant digit).

  The text that is parsed is a JavaScript string: a list of UTF-16 code units, here
  natural numbers. \<open>ascii\<close> writes such a string from 8-bit characters.
\<close>

type_synonym jsstring = "nat list"

definition ascii :: "string \<Rightarrow> jsstring" where
  "ascii s = map of_char s"

text \<open>
  White space and line terminators of ECMAScript: TAB, LF, VT, FF, CR, SP, NBSP, the other
  space separators of Unicode, LS, PS and the byte order mark.
\<close>

definition StrWhiteSpaceChar :: "nat \<Rightarrow> bool" where
  "StrWhiteSpaceChar c \<longleftrightarrow>
     c \<in> set [0x09, 0x0A, 0x0B, 0x0C, 0x0D, 0x20, 0xA0, 0x1680, 0x2028, 0x2029, 0x202F,
              0x205F, 0x3000, 0xFEFF] \<or>
     (0x2000 \<le> c \<and> c \<le> 0x200A)"

definition trim :: "jsstring \<Rightarrow> jsstring" where
  "trim s = rev (dropWhile StrWhiteSpaceChar (rev (dropWhile StrWhiteSpaceChar s)))"

definition DecimalDigit_unit :: "nat \<Rightarrow> bool" where
  "DecimalDigit_unit c \<longleftrightarrow> 48 \<le> c \<and> c \<le> 57"

text \<open>The value of a digit in a radix up to 16; \<open>None\<close> when the code unit is no digit of it.\<close>

definition digit_of :: "nat \<Rightarrow> nat \<Rightarrow> nat option" where
  "digit_of radix c =
     (let d = (if 48 \<le> c \<and> c \<le> 57 then Some (c - 48)
               else if 97 \<le> c \<and> c \<le> 102 then Some (c - 87)
               else if 65 \<le> c \<and> c \<le> 70 then Some (c - 55)
               else None)
      in case d of None \<Rightarrow> None | Some v \<Rightarrow> if v < radix then Some v else None)"

definition digits_value :: "nat \<Rightarrow> jsstring \<Rightarrow> nat" where
  "digits_value radix ds =
     fold (\<lambda>c acc. acc * radix + (case digit_of radix c of None \<Rightarrow> 0 | Some v \<Rightarrow> v)) ds 0"

subsection \<open>Rounding to binary64\<close>

text \<open>The number of binary digits of a natural number.\<close>

fun bit_length :: "nat \<Rightarrow> nat" where
  "bit_length n = (if n = 0 then 0 else bit_length (n div 2) + 1)"

definition pow2 :: "int \<Rightarrow> rat" where
  "pow2 k = (if 0 \<le> k then 2 ^ nat k else 1 / 2 ^ nat (- k))"

text \<open>For positive \<open>a\<close> and \<open>b\<close>: the exponent \<open>e\<close> with \<open>2 ^ e \<le> a / b < 2 ^ (e + 1)\<close>.\<close>

definition floor_log2 :: "nat \<Rightarrow> nat \<Rightarrow> int" where
  "floor_log2 a b =
     (let d = int (bit_length a) - int (bit_length b)
      in if (if 0 \<le> d then b * 2 ^ nat d \<le> a else b \<le> a * 2 ^ nat (- d)) then d else d - 1)"

text \<open>The integer nearest to \<open>num / den\<close>, the even one of two that are equally near.\<close>

definition round_half_even :: "nat \<Rightarrow> nat \<Rightarrow> nat" where
  "round_half_even num den =
     (let q = num div den; r = num mod den
      in if 2 * r < den then q
         else if den < 2 * r then q + 1
         else if even q then q else q + 1)"

text \<open>
  The binary64 number nearest to \<open>a / b\<close> (for \<open>b > 0\<close>): a multiple \<open>n * 2 ^ p\<close> of the
  spacing \<open>2 ^ p\<close> that binary64 has at the size of \<open>a / b\<close> (53 significant bits, and
  \<open>2 ^ - 1074\<close> below \<open>2 ^ - 1022\<close>); positive infinity when that is \<open>2 ^ 1024\<close> or more.
\<close>

definition round_binary64 :: "nat \<Rightarrow> nat \<Rightarrow> jsnum" where
  "round_binary64 a b =
     (if a = 0 then Fin 0
      else
        let p = max (floor_log2 a b) (- 1022) - 52;
            n = (if 0 \<le> p then round_half_even a (b * 2 ^ nat p)
                 else round_half_even (a * 2 ^ nat (- p)) b)
        in if 971 < p \<or> (p = 971 \<and> 2 ^ 53 \<le> n) then PosInf
           else Fin (of_nat n * pow2 p))"

subsection \<open>The grammar\<close>

text \<open>
  The text after the mantissa: nothing (exponent 0), or \<^verbatim>\<open>e\<close>/\<^verbatim>\<open>E\<close>, an optional sign
  and at least one digit. \<open>None\<close> when it is neither.
\<close>

definition ExponentPart :: "jsstring \<Rightarrow> int option" where
  "ExponentPart s =
     (case s of
        [] \<Rightarrow> Some 0
      | c # r \<Rightarrow>
          if c = of_char (CHR ''e'') \<or> c = of_char (CHR ''E'') then
            (let neg = (case r of [] \<Rightarrow> False | d # _ \<Rightarrow> d = of_char (CHR ''-''));
                 ds = (case r of [] \<Rightarrow> []
                       | d # r' \<Rightarrow>
                           if d = of_char (CHR ''-'') \<or> d = of_char (CHR ''+'') then r' else r)
             in if ds \<noteq> [] \<and> list_all DecimalDigit_unit ds
                then Some ((if neg then - 1 else 1) * int (digits_value 10 ds))
                else None)
          else None)"

definition StrUnsignedDecimalLiteral :: "jsstring \<Rightarrow> jsnum" where
  "StrUnsignedDecimalLiteral s =
     (if s = ascii ''Infinity'' then PosInf
      else
        let ip = takeWhile DecimalDigit_unit s;
            r1 = dropWhile DecimalDigit_unit s;
            dot = (case r1 of [] \<Rightarrow> False | c # _ \<Rightarrow> c = of_char (CHR ''.''));
            fp = (if dot then takeWhile DecimalDigit_unit (tl r1) else []);
            r2 = (if dot then dropWhile DecimalDigit_unit (tl r1) else r1)
        in if ip = [] \<and> fp = [] then NaN
           else (case ExponentPart r2 of
                   None \<Rightarrow> NaN
                 | Some e \<Rightarrow>
                     (let m = digits_value 10 (ip @ fp); k = e - int (length fp)
                      in if 0 \<le> k then round_binary64 (m * 10 ^ nat k) 1
                         else round_binary64 m (10 ^ nat (- k)))))"

definition negate :: "jsnum \<Rightarrow> jsnum" where
  "negate n = (case n of NaN \<Rightarrow> NaN | PosInf \<Rightarrow> NegInf | NegInf \<Rightarrow> PosInf | Fin q \<Rightarrow> Fin (- q))"

definition StrDecimalLiteral :: "jsstring \<Rightarrow> jsnum" where
  "StrDecimalLiteral s =
     (case s of
        [] \<Rightarrow> NaN
      | c # r \<Rightarrow>
          if c = of_char (CHR ''+'') then StrUnsignedDecimalLiteral r
          else if c = of_char (CHR ''-'') then negate (StrUnsignedDecimalLiteral r)
          else StrUnsignedDecimalLiteral s)"

definition radix_literal :: "nat \<Rightarrow> jsstring \<Rightarrow> jsnum" where
  "radix_literal radix ds =
     (if ds \<noteq> [] \<and> list_all (\<lambda>c. digit_of radix c \<noteq> None) ds
      then round_binary64 (digits_value radix ds) 1 else NaN)"

text \<open>\<open>None\<close> when the text does not start with \<^verbatim>\<open>0x\<close>, \<^verbatim>\<open>0o\<close> or \<^verbatim>\<open>0b\<close> (either case).\<close>

definition NonDecimalIntegerLiteral :: "jsstring \<Rightarrow> jsnum option" where
  "NonDecimalIntegerLiteral s =
     (case s of
        z # p # ds \<Rightarrow>
          if z \<noteq> of_char (CHR ''0'') then None
          else if p = of_char (CHR ''x'') \<or> p = of_char (CHR ''X'') then Some (radix_literal 16 ds)
          else if p = of_char (CHR ''o'') \<or> p = of_char (CHR ''O'') then Some (radix_literal 8 ds)
          else if p = of_char (CHR ''b'') \<or> p = of_char (CHR ''B'') then Some (radix_literal 2 ds)
          else None
      | _ \<Rightarrow> None)"

definition StringToNumber :: "jsstring \<Rightarrow> jsnum" where
  "StringToNumber s =
     (let t = trim s
      in if t = [] then Fin 0
         else (case NonDecimalIntegerLiteral t of
                 Some v \<Rightarrow> v
               | None \<Rightarrow> StrDecimalLiteral t))"

section \<open>Zod schemas\<close>

text \<open>
  The three field schemas the routes use on JSON values. \<^verbatim>\<open>z.string()\<close> accepts any string,
  the empty one included; \<^verbatim>\<open>z.number()\<close> accepts any number but NaN (the infinities
  pass, as in Zod 3);
  \<^verbatim>\<open>z.string().email()\<close> also matches the string against Zod's e-mail pattern
  \<^verbatim>\<open>^(?!\.)(?!.*\.\.)([A-Z0-9_'+\-\.]*)[A-Z0-9_+-]@([A-Z0-9][A-Z0-9\-]*\.)+[A-Z]{2,}$\<close>
  (case-insensitive).
\<close>

datatype ztype = ZString | ZStringEmail | ZNumber

definition DecimalDigit :: "char \<Rightarrow> bool" where
  "DecimalDigit c \<longleftrightarrow> 48 \<le> (of_char c :: nat) \<and> (of_char c :: nat) \<le> 57"

definition is_letter :: "char \<Rightarrow> bool" where
  "is_letter c \<longleftrightarrow>
     (let n = (of_char c :: nat) in (65 \<le> n \<and> n \<le> 90) \<or> (97 \<le> n \<and> n \<le> 122))"

definition is_alnum :: "char \<Rightarrow> bool" where
  "is_alnum c \<longleftrightarrow> is_letter c \<or> DecimalDigit c"

text \<open>The pieces of a string between occurrences of a separator (always at least one).\<close>

fun split_on :: "char \<Rightarrow> string \<Rightarrow> string list" where
  "split_on sep [] = [[]]"
| "split_on sep (c # cs) =
     (if c = sep then [] # split_on sep cs
      else (case split_on sep cs of
              [] \<Rightarrow> [[c]]
            | p # ps \<Rightarrow> (c # p) # ps))"

definition email_local :: "string \<Rightarrow> bool" where
  "email_local l \<longleftrightarrow>
     l \<noteq> [] \<and>
     list_all (\<lambda>c. is_alnum c \<or> c \<in> set ''_'' \<or> c \<in> set [CHR 0x27] \<or> c \<in> set ''+-.'') l \<and>
     (is_alnum (last l) \<or> last l \<in> set ''_+-'')"

definition email_label :: "string \<Rightarrow> bool" where
  "email_label l \<longleftrightarrow>
     l \<noteq> [] \<and> is_alnum (hd l) \<and> list_all (\<lambda>c. is_alnum c \<or> c = CHR ''-'') (tl l)"

definition email_domain :: "string \<Rightarrow> bool" where
  "email_domain d \<longleftrightarrow>
     (let ls = split_on (CHR ''.'') d
      in 2 \<le> length ls \<and> list_all email_label (butlast ls) \<and>
         2 \<le> length (last ls) \<and> list_all is_letter (last ls))"

fun has_double_dot :: "string \<Rightarrow> bool" where
  "has_double_dot (a # b # cs) = ((a = CHR ''.'' \<and> b = CHR ''.'') \<or> has_double_dot (b # cs))"
| "has_double_dot _ = False"

definition is_email :: "string \<Rightarrow> bool" where
  "is_email s \<longleftrightarrow>
     (case split_on (CHR ''@'') s of
        [l, d] \<Rightarrow> \<not> (case s of [] \<Rightarrow> False | c # _ \<Rightarrow> c = CHR ''.'') \<and> \<not> has_double_dot s \<and>
                  email_local l \<and> email_domain d
      | _ \<Rightarrow> False)"

fun zcheck :: "ztype \<Rightarrow> jsval \<Rightarrow> bool" where
  "zcheck ZString v = (case v of JString _ \<Rightarrow> True | _ \<Rightarrow> False)"
| "zcheck ZStringEmail v = (case v of JString s \<Rightarrow> is_email s | _ \<Rightarrow> False)"
| "zcheck ZNumber v = (case v of JNumber n \<Rightarrow> n \<noteq> NaN | _ \<Rightarrow> False)"

text \<open>
  \<^verbatim>\<open>z.object(shape)\<close>: the input must be an object; every key of the shape is read from it
  (a missing key reads as \<^verbatim>\<open>undefined\<close>) and checked. The error lists the keys that failed
  (the empty path when the input is no object); the result is the fields of the parsed
  object: the keys of the shape only, unknown keys are stripped.
\<close>

definition zobject ::
  "(string \<times> ztype) list \<Rightarrow> jsval \<Rightarrow> string list + (string \<times> jsval) list" where
  "zobject shape v =
     (case v of
        JObject kvs \<Rightarrow>
          (let issues = map fst (filter (\<lambda>(k, t). \<not> zcheck t (get_prop kvs k)) shape)
           in if issues = [] then Inr (map (\<lambda>(k, t). (k, get_prop kvs k)) shape)
              else Inl issues)
      | _ \<Rightarrow> Inl [[]])"

text \<open>
  \<^verbatim>\<open>z.coerce.number()\<close> on a path parameter, which is a string, or \<^verbatim>\<open>undefined\<close> when the
  parameter is absent (\<^verbatim>\<open>Number(undefined)\<close> is NaN).
\<close>

definition z_coerce_number :: "jsstring option \<Rightarrow> jsnum option" where
  "z_coerce_number v =
     (let n = (case v of None \<Rightarrow> NaN | Some s \<Rightarrow> StringToNumber s)
      in if n = NaN then None else Some n)"

definition RecipeSchema :: "(string \<times> ztype) list" where
  "RecipeSchema = [(''id'', ZNumber), (''name'', ZString), (''ingredience'', ZStringEmail)]"

definition NewRecipeSchema :: "(string \<times> ztype) list" where
  "NewRecipeSchema = [(''name'', ZString), (''ingredience'', ZString)]"

text \<open>
  The repository holds a second copy of the API routes whose \<^verbatim>\<open>NewRecipeSchema\<close> differs in
  one place: there \<open>ingredience\<close> is \<^verbatim>\<open>z.string().email()\<close>. The routes modelled are those of
  \<^verbatim>\<open>src/index.ts\<close>; this is the schema of the copy.
\<close>

definition NewRecipeSchema_copy :: "(string \<times> ztype) list" where
  "NewRecipeSchema_copy = [(''name'', ZString), (''ingredience'', ZStringEmail)]"

section \<open>The recipes table\<close>

text \<open>
  \<^verbatim>\<open>src/db/schema.ts\<close>: table \<^verbatim>\<open>recipes\<close> with an integer primary key \<^verbatim>\<open>id\<close> and four text
  columns, all declared \<^verbatim>\<open>notNull()\<close>; the two time stamps default to
  \<^verbatim>\<open>CURRENT_TIMESTAMP\<close>. A text cell is \<open>None\<close> for SQL NULL, so that the constraint
  is something the storage enforces and not a property of the type.
\<close>

record recipe =
  recipe_id :: int
  recipe_name :: "string option"
  recipe_ingredience :: "string option"
  recipe_createdAt :: "string option"
  recipe_updatedAt :: "string option"

text \<open>
  The statements the handlers send: \<^verbatim>\<open>db.select().from(recipes)\<close>, the same with
  \<^verbatim>\<open>.where(eq(recipes.id, id))\<close>, and \<^verbatim>\<open>db.insert(recipes).values({name, ingredience})\<close>.
\<close>

datatype stmt =
    SelectAll
  | SelectWhereId jsnum
  | InsertValues "string option" "string option"

text \<open>
  The D1 database behind the binding: whether it can be reached, the rows of the table in
  storage order, and every statement sent to it so far (sent, whether or not it succeeded).
\<close>

record d1 =
  reachable :: bool
  recipes :: "recipe list"
  executed :: "stmt list"

datatype error =
    ValidationError "string list"
  | StorageUnavailable
  | NotNullConstraintFailed string

definition send :: "stmt \<Rightarrow> d1 \<Rightarrow> d1" where
  "send q db = db\<lparr>executed := executed db @ [q]\<rparr>"

definition select_all :: "d1 \<Rightarrow> (error + recipe list) \<times> d1" where
  "select_all db =
     (if reachable db then Inr (recipes db) else Inl StorageUnavailable, send SelectAll db)"

text \<open>
  The select by id compares the id column with the number bound to the statement; a number
  that is no integer (a fraction, an infinity) equals no id and selects no row.
\<close>

definition select_where_id :: "jsnum \<Rightarrow> d1 \<Rightarrow> (error + recipe list) \<times> d1" where
  "select_where_id n db =
     (if reachable db then Inr (filter (\<lambda>r. Fin (of_int (recipe_id r)) = n) (recipes db))
      else Inl StorageUnavailable,
      send (SelectWhereId n) db)"

text \<open>
  An \<^verbatim>\<open>integer primary key\<close> column without AUTOINCREMENT is SQLite's rowid: a row inserted
  without an id gets 1 in an empty table, and one more than the largest id otherwise.
  Ids are unbounded integers here: the table is taken to be far from SQLite's largest rowid,
  where that rule ends. Above \<open>2 ^ 53\<close> a JavaScript number no longer holds every integer;
  a result that needs the id to be one has that bound as a hypothesis.
\<close>

definition next_rowid :: "recipe list \<Rightarrow> int" where
  "next_rowid rs =
     (case rs of [] \<Rightarrow> 1 | r # rs' \<Rightarrow> fold max (map recipe_id rs') (recipe_id r) + 1)"

text \<open>
  The insert of both create paths. A value that is \<^verbatim>\<open>undefined\<close> is sent as NULL, which the
  NOT NULL constraint of the column rejects. \<open>now\<close> is the storage's CURRENT_TIMESTAMP
  at the time of the statement. The result is what \<^verbatim>\<open>.returning()\<close> yields.
\<close>

definition insert_values ::
  "string \<Rightarrow> string option \<Rightarrow> string option \<Rightarrow> d1 \<Rightarrow> (error + recipe list) \<times> d1" where
  "insert_values now n i db =
     (let db' = send (InsertValues n i) db
      in if \<not> reachable db then (Inl StorageUnavailable, db')
         else if n = None then (Inl (NotNullConstraintFailed ''recipes.name''), db')
         else if i = None then (Inl (NotNullConstraintFailed ''recipes.ingredience''), db')
         else
           (let r = \<lparr>recipe_id = next_rowid (recipes db), recipe_name = n,
                     recipe_ingredience = i, recipe_createdAt = Some now,
                     recipe_updatedAt = Some now\<rparr>
            in (Inr [r], db'\<lparr>recipes := recipes db @ [r]\<rparr>)))"

section \<open>The routes\<close>

text \<open>
  What a request is answered with: \<^verbatim>\<open>c.json(value, status)\<close>, \<^verbatim>\<open>c.html(page)\<close>,
  \<^verbatim>\<open>c.redirect(location)\<close>, and the plain text with a status that the framework sends when
  no route matches.
\<close>

datatype response =
    Json jsval nat
  | Html string
  | Redirect string
  | Text string nat

definition text_json :: "string option \<Rightarrow> jsval" where
  "text_json t = (case t of None \<Rightarrow> JNull | Some s \<Rightarrow> JString s)"

text \<open>A row as the driver hands it to JavaScript, with the keys of the schema.\<close>

definition recipe_json :: "recipe \<Rightarrow> jsval" where
  "recipe_json r =
     JObject [(''id'', JNumber (Fin (of_int (recipe_id r)))),
              (''name'', text_json (recipe_name r)),
              (''ingredience'', text_json (recipe_ingredience r)),
              (''createdAt'', text_json (recipe_createdAt r)),
              (''updatedAt'', text_json (recipe_updatedAt r))]"

text \<open>\<^verbatim>\<open>const [user] = rows\<close>: the first row, \<^verbatim>\<open>undefined\<close> when there is none.\<close>

definition first_row :: "recipe list \<Rightarrow> jsval" where
  "first_row rs = (case rs of [] \<Rightarrow> JUndefined | r # _ \<Rightarrow> recipe_json r)"

text \<open>The value bound for a column: a string, or NULL for \<^verbatim>\<open>undefined\<close>.\<close>

definition bound_text :: "jsval \<Rightarrow> string option" where
  "bound_text v = (case v of JString s \<Rightarrow> Some s | _ \<Rightarrow> None)"

text \<open>\<^verbatim>\<open>GET /api/recipes\<close>\<close>

definition getRecipes :: "d1 \<Rightarrow> (error + response) \<times> d1" where
  "getRecipes db =
     (case select_all db of
        (Inl e, db') \<Rightarrow> (Inl e, db')
      | (Inr users, db') \<Rightarrow> (Inr (Json (JArray (map recipe_json users)) 200), db'))"

text \<open>
  \<^verbatim>\<open>GET /api/recipes/{id}\<close>: the path parameters are validated with
  \<^verbatim>\<open>z.object({ id: z.coerce.number() })\<close>; a failure is answered before the handler runs.
\<close>

definition getRecipe :: "(string \<rightharpoonup> jsstring) \<Rightarrow> d1 \<Rightarrow> (error + response) \<times> d1" where
  "getRecipe params db =
     (case z_coerce_number (params ''id'') of
        None \<Rightarrow> (Inl (ValidationError [''id'']), db)
      | Some n \<Rightarrow>
          (case select_where_id n db of
             (Inl e, db') \<Rightarrow> (Inl e, db')
           | (Inr rs, db') \<Rightarrow> (Inr (Json (first_row rs) 200), db')))"

text \<open>
  \<^verbatim>\<open>POST /api/recipe\<close>: the JSON body is validated with \<^verbatim>\<open>NewRecipeSchema\<close>; a failure is
  answered before the handler runs.
\<close>

definition createRecipe :: "string \<Rightarrow> jsval \<Rightarrow> d1 \<Rightarrow> (error + response) \<times> d1" where
  "createRecipe now body db =
     (case zobject NewRecipeSchema body of
        Inl issues \<Rightarrow> (Inl (ValidationError issues), db)
      | Inr valid \<Rightarrow>
          (case insert_values now (bound_text (get_prop valid ''name''))
                  (bound_text (get_prop valid ''ingredience'')) db of
             (Inl e, db') \<Rightarrow> (Inl e, db')
           | (Inr rs, db') \<Rightarrow> (Inr (Json (first_row rs) 201), db')))"

text \<open>
  \<^verbatim>\<open>POST /add-recipe\<close>: the two fields are taken from the parsed form body as they are
  (a field the form does not have is \<^verbatim>\<open>undefined\<close>) and inserted; then a redirect.
  The form fields are texts; uploaded files are left out.
\<close>

definition add_recipe :: "string \<Rightarrow> (string \<rightharpoonup> string) \<Rightarrow> d1 \<Rightarrow> (error + response) \<times> d1" where
  "add_recipe now form db =
     (case insert_values now (form ''name'') (form ''ingredience'') db of
        (Inl e, db') \<Rightarrow> (Inl e, db')
      | (Inr _, db') \<Rightarrow> (Inr (Redirect ''/''), db'))"

text \<open>
  \<^verbatim>\<open>GET /\<close> and \<^verbatim>\<open>GET /recipes\<close> select every row and render one list item per row; the
  response here is that list, the static markup around it is left out.
\<close>

definition template_text :: "string option \<Rightarrow> string" where
  "template_text t = (case t of None \<Rightarrow> ''null'' | Some s \<Rightarrow> s)"

definition recipeList :: "recipe list \<Rightarrow> string" where
  "recipeList rs =
     concat (map (\<lambda>r. [CHR 0x0A] @ ''      <li>'' @ [CHR 0x0A] @ ''        <strong>'' @
                       template_text (recipe_name r) @ ''</strong>: '' @
                       template_text (recipe_ingredience r) @ [CHR 0x0A] @ ''      </li>'') rs)"

definition recipes_page :: "d1 \<Rightarrow> (error + response) \<times> d1" where
  "recipes_page db =
     (case select_all db of
        (Inl e, db') \<Rightarrow> (Inl e, db')
      | (Inr rs, db') \<Rightarrow> (Inr (Html (recipeList rs)), db'))"

text \<open>Every route of the application that reaches the database.\<close>

datatype request =
    GetRoot
  | PostAddRecipe "string \<rightharpoonup> string"
  | GetRecipesPage
  | GetApiRecipes
  | GetApiRecipe "string \<rightharpoonup> jsstring"
  | PostApiRecipe jsval

fun handle :: "string \<Rightarrow> request \<Rightarrow> d1 \<Rightarrow> (error + response) \<times> d1" where
  "handle now GetRoot db = recipes_page db"
| "handle now (PostAddRecipe form) db = add_recipe now form db"
| "handle now GetRecipesPage db = recipes_page db"
| "handle now GetApiRecipes db = getRecipes db"
| "handle now (GetApiRecipe params) db = getRecipe params db"
| "handle now (PostApiRecipe body) db = createRecipe now body db"

text \<open>
  The routes for \<^verbatim>\<open>GET\<close> below \<^verbatim>\<open>/api/recipes\<close>, by the decoded path segments that follow
  that prefix. No segment: the list route. One segment that is not empty: the by-id route,
  with the segment as the parameter \<open>id\<close> (so the validator of that route always finds an
  \<open>id\<close>). A trailing slash or more segments match no route; the application then answers
  404 and runs no handler.
\<close>

fun route_api_recipes :: "jsstring list \<Rightarrow> request option" where
  "route_api_recipes [] = Some GetApiRecipes"
| "route_api_recipes [seg] =
     (if seg = [] then None else Some (GetApiRecipe (Map.empty(''id'' \<mapsto> seg))))"
| "route_api_recipes _ = None"

definition get_api_recipes :: "string \<Rightarrow> jsstring list \<Rightarrow> d1 \<Rightarrow> (error + response) \<times> d1" where
  "get_api_recipes now segs db =
     (case route_api_recipes segs of
        None \<Rightarrow> (Inr (Text ''404 Not Found'' 404), db)
      | Some req \<Rightarrow> handle now req db)"

text \<open>The invariant of the data model: ids are distinct, name and ingredience are not NULL.\<close>

definition recipes_inv :: "recipe list \<Rightarrow> bool" where
  "recipes_inv rs \<longleftrightarrow>
     distinct (map recipe_id rs) \<and>
     list_all (\<lambda>r. recipe_name r \<noteq> None \<and> recipe_ingredience r \<noteq> None) rs"

text \<open>
  An id as a client writes it into the path: decimal digits, with a minus sign if negative,
  as code units.
\<close>

fun digits :: "nat \<Rightarrow> jsstring" where
  "digits n = (if n < 10 then [48 + n] else digits (n div 10) @ [48 + n mod 10])"

definition id_text :: "int \<Rightarrow> jsstring" where
  "id_text i = (if i < 0 then of_char (CHR ''-'') # digits (nat (- i)) else digits (nat i))"

text \<open>A JavaScript value that is a string (the empty string is one).\<close>

definition is_text :: "jsval \<Rightarrow> bool" where
  "is_text v = (case v of JString _ \<Rightarrow> True | _ \<Rightarrow> False)"

text \<open>
  The response schemas the three API routes declare: \<^verbatim>\<open>z.array(RecipeSchema)\<close> for
  \<^verbatim>\<open>GET /api/recipes\<close> (200), \<^verbatim>\<open>RecipeSchema\<close> for \<^verbatim>\<open>GET /api/recipes/{id}\<close> (200) and for
  \<^verbatim>\<open>POST /api/recipe\<close> (201). A value conforms to a schema when the schema parses it.
\<close>

datatype zresponse =
    ZObjectOf "(string \<times> ztype) list"
  | ZArrayOf "(string \<times> ztype) list"

definition getRecipes_responses :: "nat \<times> zresponse" where
  "getRecipes_responses = (200, ZArrayOf RecipeSchema)"

definition getRecipe_responses :: "nat \<times> zresponse" where
  "getRecipe_responses = (200, ZObjectOf RecipeSchema)"

definition createRecipe_responses :: "nat \<times> zresponse" where
  "createRecipe_responses = (201, ZObjectOf RecipeSchema)"

fun conforms :: "zresponse \<Rightarrow> jsval \<Rightarrow> bool" where
  "conforms (ZObjectOf shape) v = (\<not> isl (zobject shape v))"
| "conforms (ZArrayOf shape) v =
     (case v of JArray vs \<Rightarrow> list_all (\<lambda>x. \<not> isl (zobject shape x)) vs | _ \<Rightarrow> False)"

section \<open>Decimal text of an id and its coercion\<close>

declare digits.simps [simp del]

declare bit_length.simps [simp del]

lemma bit_length_le: "a < 2 ^ k \<Longrightarrow> bit_length a \<le> k"
proof (induction k arbitrary: a)
  case 0
  then show ?case by (simp add: bit_length.simps)
next
  case (Suc k)
  then have "a div 2 < 2 ^ k" by simp
  then have "bit_length (a div 2) \<le> k" by (rule Suc.IH)
  then show ?case by (subst bit_length.simps) simp
qed

lemma bit_length_one: "bit_length (Suc 0) = Suc 0"
  by (simp add: bit_length.simps)

lemma bit_length_lower: "0 < a \<Longrightarrow> 2 ^ (bit_length a - 1) \<le> a"
proof (induction a rule: bit_length.induct)
  case (1 n)
  show ?case
  proof (cases "n div 2 = 0")
    case True
    with 1(2) have "n = 1" by (simp add: div_eq_0_iff)
    then show ?thesis by (simp add: bit_length_one)
  next
    case False
    with 1 have ih: "2 ^ (bit_length (n div 2) - 1) \<le> n div 2" by simp
    from False have pos: "0 < bit_length (n div 2)"
      by (subst bit_length.simps) simp
    have "bit_length n = bit_length (n div 2) + 1"
      using 1(2) by (subst bit_length.simps) simp
    then have "(2::nat) ^ (bit_length n - 1) = 2 * 2 ^ (bit_length (n div 2) - 1)"
      using pos by (cases "bit_length (n div 2)") simp_all
    also have "\<dots> \<le> 2 * (n div 2)" using ih by simp
    also have "\<dots> \<le> n" by simp
    finally show ?thesis .
  qed
qed

text \<open>A natural number below \<open>2 ^ 53\<close> is a binary64 number: rounding leaves it as it is.\<close>

lemma round_half_even_one: "round_half_even n (Suc 0) = n"
  by (simp add: round_half_even_def)

lemma round_binary64_exact:
  assumes "a < 2 ^ 53"
  shows "round_binary64 a 1 = Fin (of_nat a)"
proof (cases "a = 0")
  case True
  then show ?thesis by (simp add: round_binary64_def)
next
  case False
  define p where "p = max (floor_log2 a 1) (- 1022) - 52"
  from assms have "bit_length a \<le> 53" by (rule bit_length_le)
  then have "floor_log2 a 1 \<le> 52"
    by (simp add: floor_log2_def Let_def bit_length_one)
  then have p: "p \<le> 0" by (simp add: p_def)
  have "round_binary64 a 1 = Fin (of_nat (a * 2 ^ nat (- p)) * pow2 p)"
    using False p unfolding round_binary64_def p_def [symmetric] Let_def
    by (cases "p = 0") (simp_all add: round_half_even_one)
  also have "of_nat (a * 2 ^ nat (- p)) * pow2 p = (of_nat a :: rat)"
    using p by (simp add: pow2_def)
  finally show ?thesis .
qed

lemma bit_length_upper: "a < 2 ^ bit_length a"
proof (induction a rule: bit_length.induct)
  case (1 n)
  show ?case
  proof (cases "n = 0")
    case True
    then show ?thesis by simp
  next
    case False
    with 1 have "n div 2 < 2 ^ bit_length (n div 2)" by simp
    then have "n < 2 * 2 ^ bit_length (n div 2)" by linarith
    moreover have "bit_length n = bit_length (n div 2) + 1"
      using False by (subst bit_length.simps) simp
    ultimately show ?thesis by simp
  qed
qed

lemma bit_length_greater: "2 ^ k \<le> a \<Longrightarrow> k < bit_length a"
proof -
  assume "2 ^ k \<le> a"
  with bit_length_upper [of a] have "(2::nat) ^ k < 2 ^ bit_length a" by linarith
  then show ?thesis by (rule power_less_imp_less_exp [rotated]) simp
qed

text \<open>A natural number from \<open>2 ^ 1024\<close> on is rounded to infinity.\<close>

lemma round_binary64_overflow:
  assumes "2 ^ 1024 \<le> a"
  shows "round_binary64 a 1 = PosInf"
proof -
  have "(0::nat) < 2 ^ 1024" by simp
  with assms have pos: "0 < a" by linarith
  from assms have big: "1024 < bit_length a" by (rule bit_length_greater)
  define d where "d = int (bit_length a) - 1"
  from big have d: "1024 \<le> d" by (simp add: d_def)
  then have "nat d = bit_length a - 1" by (simp add: d_def)
  with bit_length_lower [OF pos] have "2 ^ nat d \<le> a" by simp
  with d have "floor_log2 a 1 = d"
    by (simp add: floor_log2_def Let_def bit_length_one d_def)
  with d pos show ?thesis
    by (simp add: round_binary64_def Let_def)
qed

lemma round_binary64_not_NaN: "round_binary64 a b \<noteq> NaN"
  by (simp add: round_binary64_def Let_def)


lemma DecimalDigit_unit_digit: "d < 10 \<Longrightarrow> DecimalDigit_unit (48 + d)"
  by (simp add: DecimalDigit_unit_def)

lemma digit_of_digit: "d < 10 \<Longrightarrow> digit_of 10 (48 + d) = Some d"
  by (simp add: digit_of_def Let_def)

lemma digits_all_DecimalDigit_unit: "list_all DecimalDigit_unit (digits n)"
proof (induction n rule: digits.induct)
  case (1 n)
  show ?case
  proof (cases "n < 10")
    case True
    then show ?thesis by (subst digits.simps) (simp add: DecimalDigit_unit_digit)
  next
    case False
    with 1 show ?thesis by (subst digits.simps) (simp add: DecimalDigit_unit_digit)
  qed
qed

lemma digits_nonempty: "digits n \<noteq> []"
  by (subst digits.simps) simp

lemma digits_value_snoc:
  "digits_value radix (ds @ [c]) =
     digits_value radix ds * radix + (case digit_of radix c of None \<Rightarrow> 0 | Some v \<Rightarrow> v)"
  by (simp add: digits_value_def)

lemma digits_value_digits: "digits_value 10 (digits n) = n"
proof (induction n rule: digits.induct)
  case (1 n)
  show ?case
  proof (cases "n < 10")
    case True
    then show ?thesis
      by (subst digits.simps) (simp add: digits_value_def digit_of_digit)
  next
    case False
    with 1 have "digits_value 10 (digits (n div 10)) = n div 10" by simp
    with False show ?thesis
      by (subst digits.simps) (simp add: digits_value_snoc digit_of_digit)
  qed
qed

lemma DecimalDigit_unit_not_special:
  "DecimalDigit_unit c \<Longrightarrow>
     \<not> StrWhiteSpaceChar c \<and> c \<noteq> of_char (CHR ''+'') \<and> c \<noteq> of_char (CHR ''-'') \<and>
     c \<noteq> of_char (CHR ''I'')"
  by (auto simp: DecimalDigit_unit_def StrWhiteSpaceChar_def)

lemma DecimalDigit_unit_not_prefix: "DecimalDigit_unit p \<Longrightarrow> p \<notin> set (ascii ''xXoObB'')"
  by (auto simp: DecimalDigit_unit_def ascii_def)

lemma trim_id:
  assumes "s \<noteq> []" "\<not> StrWhiteSpaceChar (hd s)" "\<not> StrWhiteSpaceChar (last s)"
  shows "trim s = s"
proof -
  from assms have at_start: "dropWhile StrWhiteSpaceChar s = s"
    by (cases s) simp_all
  from assms have at_end: "dropWhile StrWhiteSpaceChar (rev s) = rev s"
    by (cases "rev s") (simp_all add: hd_rev)
  show ?thesis by (simp add: trim_def at_start at_end)
qed

lemma StrUnsignedDecimalLiteral_digits:
  assumes "ds \<noteq> []" "list_all DecimalDigit_unit ds"
  shows "StrUnsignedDecimalLiteral ds = round_binary64 (digits_value 10 ds) 1"
proof -
  from assms have "DecimalDigit_unit (hd ds)" by (cases ds) simp_all
  then have "hd ds \<noteq> of_char (CHR ''I'')" using DecimalDigit_unit_not_special by blast
  with assms(1) have ne: "ds \<noteq> ascii ''Infinity''" by (auto simp: ascii_def)
  from assms(2) have tw: "takeWhile DecimalDigit_unit ds = ds" "dropWhile DecimalDigit_unit ds = []"
    by (simp_all add: list_all_iff)
  show ?thesis
    using ne assms(1) by (simp add: StrUnsignedDecimalLiteral_def tw ExponentPart_def)
qed

lemma NonDecimalIntegerLiteral_prefix:
  "p \<notin> set (ascii ''xXoObB'') \<Longrightarrow> NonDecimalIntegerLiteral (z # p # r) = None"
  by (simp add: NonDecimalIntegerLiteral_def ascii_def)

lemma NonDecimalIntegerLiteral_short:
  "NonDecimalIntegerLiteral [] = None" "NonDecimalIntegerLiteral [z] = None"
  by (simp_all add: NonDecimalIntegerLiteral_def)

lemma NonDecimalIntegerLiteral_digits:
  assumes "list_all DecimalDigit_unit ds"
  shows "NonDecimalIntegerLiteral ds = None"
proof (cases ds)
  case Nil
  then show ?thesis by (simp only: NonDecimalIntegerLiteral_short)
next
  case outer: (Cons z r)
  show ?thesis
  proof (cases r)
    case Nil
    with outer show ?thesis by (simp only: NonDecimalIntegerLiteral_short)
  next
    case (Cons p r')
    with assms outer have "DecimalDigit_unit p" by simp
    then have "p \<notin> set (ascii ''xXoObB'')" by (rule DecimalDigit_unit_not_prefix)
    then show ?thesis unfolding outer Cons by (rule NonDecimalIntegerLiteral_prefix)
  qed
qed

text \<open>The decimal digits of a natural number are coerced to the binary64 number nearest to it.\<close>

lemma StringToNumber_digits: "StringToNumber (digits n) = round_binary64 n 1"
proof -
  let ?ds = "digits n"
  have ne: "?ds \<noteq> []" by (rule digits_nonempty)
  have all: "list_all DecimalDigit_unit ?ds" by (rule digits_all_DecimalDigit_unit)
  from ne all have h: "DecimalDigit_unit (hd ?ds)" by (cases ?ds) simp_all
  from ne all have l: "DecimalDigit_unit (last ?ds)" by (simp add: list_all_iff)
  have t: "trim ?ds = ?ds"
    using ne h l DecimalDigit_unit_not_special by (intro trim_id) blast+
  have sd: "StrDecimalLiteral ?ds = StrUnsignedDecimalLiteral ?ds"
    using ne h DecimalDigit_unit_not_special [of "hd ?ds"]
    by (cases ?ds) (simp_all add: StrDecimalLiteral_def)
  show ?thesis
    using ne by (simp add: StringToNumber_def t NonDecimalIntegerLiteral_digits [OF all] sd
        StrUnsignedDecimalLiteral_digits [OF ne all] digits_value_digits)
qed

text \<open>The same after a minus sign (code unit 45).\<close>

lemma StringToNumber_minus_digits:
  "StringToNumber (45 # digits n) = negate (round_binary64 n 1)"
proof -
  let ?ds = "digits n"
  have ne: "?ds \<noteq> []" by (rule digits_nonempty)
  have all: "list_all DecimalDigit_unit ?ds" by (rule digits_all_DecimalDigit_unit)
  from ne all have l: "DecimalDigit_unit (last ?ds)" by (simp add: list_all_iff)
  have t: "trim (45 # ?ds) = 45 # ?ds"
    using ne l DecimalDigit_unit_not_special [of "last ?ds"]
    by (intro trim_id) (simp_all add: StrWhiteSpaceChar_def)
  have nd: "NonDecimalIntegerLiteral (45 # ?ds) = None"
    by (cases ?ds) (simp_all add: NonDecimalIntegerLiteral_def)
  show ?thesis
    by (simp add: StringToNumber_def t nd StrDecimalLiteral_def
        StrUnsignedDecimalLiteral_digits [OF ne all] digits_value_digits)
qed

text \<open>
  The decimal text of an integer is never NaN, and it is coerced back to that integer when
  the integer is below \<open>2 ^ 53\<close> in size. Beyond that the coercion rounds.
\<close>

lemma StringToNumber_id_text_not_NaN: "StringToNumber (id_text i) \<noteq> NaN"
proof (cases "i < 0")
  case True
  have "negate (round_binary64 (nat (- i)) 1) \<noteq> NaN"
    using round_binary64_not_NaN [of "nat (- i)" 1]
    by (cases "round_binary64 (nat (- i)) 1") (simp_all add: negate_def)
  with True show ?thesis by (simp add: id_text_def StringToNumber_minus_digits)
next
  case False
  then show ?thesis
    by (simp add: id_text_def StringToNumber_digits round_binary64_not_NaN)
qed

lemma StringToNumber_id_text:
  assumes "\<bar>i\<bar> < 2 ^ 53"
  shows "StringToNumber (id_text i) = Fin (of_int i)"
proof (cases "i < 0")
  case True
  with assms have "nat (- i) < 2 ^ 53" by (simp add: nat_less_iff)
  then have "round_binary64 (nat (- i)) 1 = Fin (of_nat (nat (- i)))"
    by (rule round_binary64_exact)
  moreover from True have "(of_nat (nat (- i)) :: rat) = - of_int i" by simp
  ultimately show ?thesis
    using True by (simp add: id_text_def StringToNumber_minus_digits negate_def del: of_nat_nat)
next
  case False
  with assms have "nat i < 2 ^ 53" by (simp add: nat_less_iff)
  then have "round_binary64 (nat i) 1 = Fin (of_nat (nat i))"
    by (rule round_binary64_exact)
  moreover from False have "(of_nat (nat i) :: rat) = of_int i" by simp
  ultimately show ?thesis
    using False by (simp add: id_text_def StringToNumber_digits del: of_nat_nat)
qed

text \<open>Three texts that show the rounding: a fraction, an integer beyond \<open>2 ^ 53\<close>, an overflow.\<close>

lemmas StringToNumber_defs =
  StringToNumber_def trim_def StrWhiteSpaceChar_def NonDecimalIntegerLiteral_def
  StrDecimalLiteral_def StrUnsignedDecimalLiteral_def DecimalDigit_unit_def ExponentPart_def
  digits_value_def digit_of_def negate_def radix_literal_def ascii_def Let_def

lemmas round_binary64_defs =
  round_binary64_def floor_log2_def round_half_even_def pow2_def bit_length.simps

lemma StringToNumber_rounds_fraction:
  "StringToNumber (ascii ''1.00000000000000001'') = Fin 1"
  by (simp add: StringToNumber_defs round_binary64_defs)

lemma StringToNumber_rounds_integer:
  "StringToNumber (ascii ''9007199254740993'') = Fin 9007199254740992"
  by (simp add: StringToNumber_defs round_binary64_defs)

lemma StringToNumber_overflows: "StringToNumber (ascii ''1e400'') = PosInf"
proof -
  have "StringToNumber (ascii ''1e400'') = round_binary64 (10 ^ 400) 1"
    by (simp add: StringToNumber_defs)
  also have "\<dots> = PosInf"
    by (rule round_binary64_overflow) simp
  finally show ?thesis .
qed

lemma StringToNumber_trims_unicode: "StringToNumber [0x2003, 0x31, 0x32, 0xFEFF] = Fin 12"
  by (simp add: StringToNumber_defs round_binary64_defs)

section \<open>Creating a recipe through the API\<close>

lemma zcheck_ZString: "zcheck ZString v = is_text v"
  by (simp add: is_text_def)

lemma NewRecipeSchema_parse:
  "zobject NewRecipeSchema (JObject kvs) =
     (if is_text (get_prop kvs ''name'') \<and> is_text (get_prop kvs ''ingredience'')
      then Inr [(''name'', get_prop kvs ''name''), (''ingredience'', get_prop kvs ''ingredience'')]
      else Inl (map fst (filter (\<lambda>(k, t). \<not> zcheck t (get_prop kvs k)) NewRecipeSchema)))"
  by (simp add: zobject_def NewRecipeSchema_def zcheck_ZString del: zcheck.simps)

lemma NewRecipeSchema_rejects:
  assumes "\<not> is_text (get_prop kvs ''name'') \<or> \<not> is_text (get_prop kvs ''ingredience'')"
  shows "\<exists>issues. zobject NewRecipeSchema (JObject kvs) = Inl issues"
proof -
  from assms
  have "\<not> (is_text (get_prop kvs ''name'') \<and> is_text (get_prop kvs ''ingredience''))"
    by blast
  then show ?thesis by (simp only: NewRecipeSchema_parse if_False) blast
qed

lemma NewRecipeSchema_accepts:
  assumes "get_prop kvs ''name'' = JString n" "get_prop kvs ''ingredience'' = JString i"
  shows "zobject NewRecipeSchema (JObject kvs) =
           Inr [(''name'', JString n), (''ingredience'', JString i)]"
  using assms by (simp add: NewRecipeSchema_parse is_text_def)

lemma is_text_iff: "is_text v \<longleftrightarrow> (\<exists>s. v = JString s)"
  by (cases v) (simp_all add: is_text_def)

text \<open>Neither copy of the schema asks for a name that is not empty.\<close>

lemma NewRecipeSchema_copy_empty_name:
  "zobject NewRecipeSchema_copy
     (JObject [(''name'', JString []), (''ingredience'', JString ''pork@eggs.io'')]) =
   Inr [(''name'', JString []), (''ingredience'', JString ''pork@eggs.io'')]"
  by code_simp

text \<open>
  What the route does with a valid body on a database that can be reached: one insert is
  sent, the row gets the next rowid and the storage's time stamp twice, it is appended to
  the table and returned with status 201.
\<close>

lemma createRecipe_valid:
  assumes "get_prop kvs ''name'' = JString n" "get_prop kvs ''ingredience'' = JString i"
    and "reachable db"
  shows "createRecipe now (JObject kvs) db =
           (Inr (Json (recipe_json
                   \<lparr>recipe_id = next_rowid (recipes db), recipe_name = Some n,
                      recipe_ingredience = Some i, recipe_createdAt = Some now,
                      recipe_updatedAt = Some now\<rparr>) 201),
            db\<lparr>recipes := recipes db @
                   [\<lparr>recipe_id = next_rowid (recipes db), recipe_name = Some n,
                      recipe_ingredience = Some i, recipe_createdAt = Some now,
                      recipe_updatedAt = Some now\<rparr>],
                 executed := executed db @ [InsertValues (Some n) (Some i)]\<rparr>)"
  using assms(3)
  by (simp add: createRecipe_def NewRecipeSchema_accepts [OF assms(1,2)] get_prop_def
      bound_text_def insert_values_def send_def first_row_def Let_def)

lemma NewRecipeSchema_not_object:
  assumes "\<forall>kvs. body \<noteq> JObject kvs"
  shows "zobject NewRecipeSchema body = Inl [[]]"
  using assms by (cases body) (simp_all add: zobject_def)

text \<open>
  C1 (as amended). A \<^verbatim>\<open>POST /api/recipe\<close> is answered with a validation error whenever its
  body is no object (an array, a string, \<^verbatim>\<open>null\<close>: such a body has neither field), or is
  an object that lacks \<open>name\<close> or \<open>ingredience\<close> or has a value there that is not a
  string. In each of these cases no statement is sent to the database, the database is as
  before, and listing the recipes afterwards gives what it gave before. A body whose two
  fields are strings passes validation, whatever the strings are: \<^verbatim>\<open>z.string()\<close> has no
  minimum length.
\<close>

theorem createRecipe_validation:
  "((\<forall>kvs. body \<noteq> JObject kvs) \<longrightarrow>
      createRecipe now body db = (Inl (ValidationError [[]]), db) \<and>
      getRecipes (snd (createRecipe now body db)) = getRecipes db) \<and>
   (\<forall>kvs. body = JObject kvs \<and>
      (\<not> is_text (get_prop kvs ''name'') \<or> \<not> is_text (get_prop kvs ''ingredience'')) \<longrightarrow>
      (\<exists>issues. issues \<noteq> [] \<and> set issues \<subseteq> {''name'', ''ingredience''} \<and>
         createRecipe now body db = (Inl (ValidationError issues), db)) \<and>
      getRecipes (snd (createRecipe now body db)) = getRecipes db) \<and>
   (\<forall>kvs. body = JObject kvs \<and>
      is_text (get_prop kvs ''name'') \<and> is_text (get_prop kvs ''ingredience'') \<longrightarrow>
      (\<forall>issues. fst (createRecipe now body db) \<noteq> Inl (ValidationError issues)))"
proof (intro conjI impI allI)
  assume "\<forall>kvs. body \<noteq> JObject kvs"
  then have "zobject NewRecipeSchema body = Inl [[]]"
    by (rule NewRecipeSchema_not_object)
  then have r: "createRecipe now body db = (Inl (ValidationError [[]]), db)"
    by (simp add: createRecipe_def)
  then show "createRecipe now body db = (Inl (ValidationError [[]]), db)" .
  from r show "getRecipes (snd (createRecipe now body db)) = getRecipes db"
    by simp
next
  fix kvs
  assume a: "body = JObject kvs \<and>
    (\<not> is_text (get_prop kvs ''name'') \<or> \<not> is_text (get_prop kvs ''ingredience''))"
  let ?issues = "map fst (filter (\<lambda>(k, t). \<not> zcheck t (get_prop kvs k)) NewRecipeSchema)"
  from a have "\<not> (is_text (get_prop kvs ''name'') \<and> is_text (get_prop kvs ''ingredience''))"
    by blast
  then have z: "zobject NewRecipeSchema (JObject kvs) = Inl ?issues"
    by (simp only: NewRecipeSchema_parse if_False)
  have some: "?issues \<noteq> []"
    using a by (auto simp: NewRecipeSchema_def zcheck_ZString simp del: zcheck.simps)
  have only: "set ?issues \<subseteq> {''name'', ''ingredience''}"
    by (auto simp: NewRecipeSchema_def)
  from z a have r: "createRecipe now body db = (Inl (ValidationError ?issues), db)"
    by (simp add: createRecipe_def)
  with some only
  show "\<exists>issues. issues \<noteq> [] \<and> set issues \<subseteq> {''name'', ''ingredience''} \<and>
         createRecipe now body db = (Inl (ValidationError issues), db)"
    by blast
  from r show "getRecipes (snd (createRecipe now body db)) = getRecipes db"
    by simp
next
  fix kvs issues
  assume a: "body = JObject kvs \<and>
    is_text (get_prop kvs ''name'') \<and> is_text (get_prop kvs ''ingredience'')"
  then obtain n i where "get_prop kvs ''name'' = JString n" "get_prop kvs ''ingredience'' = JString i"
    by (auto simp: is_text_iff)
  then have "zobject NewRecipeSchema (JObject kvs) =
      Inr [(''name'', JString n), (''ingredience'', JString i)]"
    by (rule NewRecipeSchema_accepts)
  with a show "fst (createRecipe now body db) \<noteq> Inl (ValidationError issues)"
    by (auto simp: createRecipe_def insert_values_def Let_def split: prod.splits sum.splits)
qed

text \<open>
  The theorem at an array as body, at a body without \<open>ingredience\<close> on a table that
  already holds a row, and at a body with both fields.
\<close>

theorem createRecipe_validation_witness:
  "createRecipe ''2025-03-01 12:00:00'' (JArray [JString ''Ramen'', JString ''Soba''])
     \<lparr>reachable = True, recipes = [], executed = []\<rparr> =
     (Inl (ValidationError [[]]), \<lparr>reachable = True, recipes = [], executed = []\<rparr>) \<and>
   createRecipe ''2025-03-01 12:00:00'' JNull
     \<lparr>reachable = True, recipes = [], executed = []\<rparr> =
     (Inl (ValidationError [[]]), \<lparr>reachable = True, recipes = [], executed = []\<rparr>) \<and>
   get_prop [(''name'', JString ''Ramen'')] ''ingredience'' = JUndefined \<and>
   (\<exists>issues.
      createRecipe ''2025-03-01 12:00:00'' (JObject [(''name'', JString ''Ramen'')])
        \<lparr>reachable = True,
           recipes = [\<lparr>recipe_id = 1, recipe_name = Some ''Miso'',
                       recipe_ingredience = Some ''Tofu'',
                       recipe_createdAt = Some ''2025-02-01 08:00:00'',
                       recipe_updatedAt = Some ''2025-02-01 08:00:00''\<rparr>],
           executed = []\<rparr> =
      (Inl (ValidationError issues),
       \<lparr>reachable = True,
          recipes = [\<lparr>recipe_id = 1, recipe_name = Some ''Miso'',
                      recipe_ingredience = Some ''Tofu'',
                      recipe_createdAt = Some ''2025-02-01 08:00:00'',
                      recipe_updatedAt = Some ''2025-02-01 08:00:00''\<rparr>],
          executed = []\<rparr>)) \<and>
   (\<forall>issues.
      fst (createRecipe ''2025-03-01 12:00:00''
             (JObject [(''name'', JString ''Ramen''), (''ingredience'', JString ''Soba'')])
             \<lparr>reachable = True, recipes = [], executed = []\<rparr>) \<noteq>
      Inl (ValidationError issues))"
proof -
  let ?one = "[(''name'', JString ''Ramen'')]"
  let ?both = "[(''name'', JString ''Ramen''), (''ingredience'', JString ''Soba'')]"
  have array: "\<forall>kvs. JArray [JString ''Ramen'', JString ''Soba''] \<noteq> JObject kvs"
    and null: "\<forall>kvs. JNull \<noteq> JObject kvs"
    by simp_all
  from array createRecipe_validation [of "JArray [JString ''Ramen'', JString ''Soba'']"]
  have no_array: "createRecipe now (JArray [JString ''Ramen'', JString ''Soba'']) db =
      (Inl (ValidationError [[]]), db)" for now db
    by blast
  from null createRecipe_validation [of JNull]
  have no_null: "createRecipe now JNull db = (Inl (ValidationError [[]]), db)" for now db
    by blast
  have undef: "get_prop ?one ''ingredience'' = JUndefined"
    by (simp add: get_prop_def)
  then have missing:
    "\<not> is_text (get_prop ?one ''name'') \<or> \<not> is_text (get_prop ?one ''ingredience'')"
    by (simp add: is_text_def)
  have present: "is_text (get_prop ?both ''name'') \<and> is_text (get_prop ?both ''ingredience'')"
    by (simp add: get_prop_def is_text_def)
  from missing createRecipe_validation [of "JObject ?one"]
  have rejected: "\<exists>issues. createRecipe now (JObject ?one) db = (Inl (ValidationError issues), db)"
    for now db by blast
  from present createRecipe_validation [of "JObject ?both"]
  have accepted: "\<forall>issues. fst (createRecipe now (JObject ?both) db) \<noteq> Inl (ValidationError issues)"
    for now db by blast
  from no_array no_null undef rejected accepted show ?thesis by blast
qed

text \<open>
  C1 as stated fails: a body whose \<open>name\<close> and \<open>ingredience\<close> are both the empty string is
  accepted, and a row with empty name and ingredience is stored.
\<close>

theorem createRecipe_empty_strings_counterexample:
  "createRecipe ''2025-03-01 12:00:00''
     (JObject [(''name'', JString ''''), (''ingredience'', JString '''')])
     \<lparr>reachable = True, recipes = [], executed = []\<rparr> =
   (Inr (Json (JObject [(''id'', JNumber (Fin 1)), (''name'', JString ''''),
                        (''ingredience'', JString ''''),
                        (''createdAt'', JString ''2025-03-01 12:00:00''),
                        (''updatedAt'', JString ''2025-03-01 12:00:00'')]) 201),
    \<lparr>reachable = True,
       recipes = [\<lparr>recipe_id = 1, recipe_name = Some '''', recipe_ingredience = Some '''',
                   recipe_createdAt = Some ''2025-03-01 12:00:00'',
                   recipe_updatedAt = Some ''2025-03-01 12:00:00''\<rparr>],
       executed = [InsertValues (Some '''') (Some '''')]\<rparr>)"
  by (simp add: createRecipe_def zobject_def NewRecipeSchema_def get_prop_def bound_text_def
      insert_values_def send_def next_rowid_def first_row_def recipe_json_def text_json_def
      Let_def)

section \<open>Fetching a recipe by id\<close>

lemma z_coerce_number_None:
  "z_coerce_number v = None \<longleftrightarrow> v = None \<or> (\<exists>s. v = Some s \<and> StringToNumber s = NaN)"
  by (cases v) (simp_all add: z_coerce_number_def Let_def)

lemma z_coerce_number_Some:
  "z_coerce_number v = Some n \<longleftrightarrow> (\<exists>s. v = Some s \<and> StringToNumber s = n \<and> n \<noteq> NaN)"
  by (cases v) (auto simp: z_coerce_number_def Let_def)

lemma getRecipe_valid:
  assumes "z_coerce_number (params ''id'') = Some n"
  shows "getRecipe params db =
           (if reachable db
            then Inr (Json (first_row (filter (\<lambda>r. Fin (of_int (recipe_id r)) = n) (recipes db))) 200)
            else Inl StorageUnavailable,
            send (SelectWhereId n) db)"
  using assms by (simp add: getRecipe_def select_where_id_def)

text \<open>A path with one segment that is not empty is handled by the by-id route.\<close>

lemma get_api_recipes_by_id:
  "seg \<noteq> [] \<Longrightarrow> get_api_recipes now [seg] db = getRecipe (Map.empty(''id'' \<mapsto> seg)) db"
  by (simp add: get_api_recipes_def)

text \<open>
  C2 (as amended). For \<^verbatim>\<open>GET /api/recipes/{id}\<close> with a segment \<open>seg\<close> in the place of the id:
  if \<^verbatim>\<open>Number(seg)\<close> is NaN, the answer is a validation error and no statement is sent;
  if it is any other number \<open>n\<close>, validation succeeds and the select for \<open>n\<close> is sent, be
  \<open>n\<close> zero, negative or not an integer. The decimal text of an integer below \<open>2 ^ 53\<close> in
  size is coerced to that integer. The schema is \<^verbatim>\<open>z.coerce.number()\<close> with neither
  \<^verbatim>\<open>.int()\<close> nor \<^verbatim>\<open>.positive()\<close>. A request without an id never reaches that validator:
  \<^verbatim>\<open>/api/recipes\<close> is the list route, and \<^verbatim>\<open>/api/recipes/\<close> matches no route and is answered
  404, with no statement sent.
\<close>

theorem getRecipe_validation:
  "(seg \<noteq> [] \<and> StringToNumber seg = NaN \<longrightarrow>
      get_api_recipes now [seg] db = (Inl (ValidationError [''id'']), db)) \<and>
   (\<forall>n. seg \<noteq> [] \<and> StringToNumber seg = n \<and> n \<noteq> NaN \<longrightarrow>
      get_api_recipes now [seg] db =
        (if reachable db
         then Inr (Json (first_row (filter (\<lambda>r. Fin (of_int (recipe_id r)) = n) (recipes db))) 200)
         else Inl StorageUnavailable,
         send (SelectWhereId n) db)) \<and>
   (\<forall>i. \<bar>i\<bar> < 2 ^ 53 \<longrightarrow>
      snd (get_api_recipes now [id_text i] db) = send (SelectWhereId (Fin (of_int i))) db) \<and>
   get_api_recipes now [] db = getRecipes db \<and>
   get_api_recipes now [[]] db = (Inr (Text ''404 Not Found'' 404), db)"
proof (intro conjI impI allI)
  assume a: "seg \<noteq> [] \<and> StringToNumber seg = NaN"
  then have "z_coerce_number ((Map.empty(''id'' \<mapsto> seg)) ''id'') = None"
    by (simp add: z_coerce_number_None)
  then have "getRecipe (Map.empty(''id'' \<mapsto> seg)) db = (Inl (ValidationError [''id'']), db)"
    by (simp add: getRecipe_def)
  with a show "get_api_recipes now [seg] db = (Inl (ValidationError [''id'']), db)"
    by (simp add: get_api_recipes_by_id)
next
  fix n
  assume a: "seg \<noteq> [] \<and> StringToNumber seg = n \<and> n \<noteq> NaN"
  let ?params = "Map.empty(''id'' \<mapsto> seg)"
  from a have "z_coerce_number (?params ''id'') = Some n"
    by (simp add: z_coerce_number_Some)
  then have "getRecipe ?params db =
        (if reachable db
         then Inr (Json (first_row (filter (\<lambda>r. Fin (of_int (recipe_id r)) = n) (recipes db))) 200)
         else Inl StorageUnavailable,
         send (SelectWhereId n) db)"
    by (rule getRecipe_valid [of ?params n db])
  with a show "get_api_recipes now [seg] db =
        (if reachable db
         then Inr (Json (first_row (filter (\<lambda>r. Fin (of_int (recipe_id r)) = n) (recipes db))) 200)
         else Inl StorageUnavailable,
         send (SelectWhereId n) db)"
    by (simp add: get_api_recipes_by_id)
next
  fix i :: int
  assume small: "\<bar>i\<bar> < 2 ^ 53"
  let ?params = "Map.empty(''id'' \<mapsto> id_text i)"
  have ne: "id_text i \<noteq> []"
    by (simp add: id_text_def digits_nonempty)
  from small have "z_coerce_number (?params ''id'') = Some (Fin (of_int i))"
    by (simp add: z_coerce_number_Some StringToNumber_id_text)
  then have "snd (getRecipe ?params db) = send (SelectWhereId (Fin (of_int i))) db"
    by (simp add: getRecipe_valid [of ?params "Fin (of_int i)" db])
  with ne show "snd (get_api_recipes now [id_text i] db) = send (SelectWhereId (Fin (of_int i))) db"
    by (simp add: get_api_recipes_by_id)
next
  show "get_api_recipes now [] db = getRecipes db"
    by (simp add: get_api_recipes_def)
  show "get_api_recipes now [[]] db = (Inr (Text ''404 Not Found'' 404), db)"
    by (simp add: get_api_recipes_def)
qed

text \<open>
  The theorem at the ids \<^verbatim>\<open>abc\<close> (rejected), \<^verbatim>\<open>7\<close> (looked up) and \<^verbatim>\<open>1e400\<close> (looked up as
  infinity), on an empty table.
\<close>

theorem getRecipe_validation_witness:
  "StringToNumber (ascii ''abc'') = NaN \<and>
   get_api_recipes ''2025-03-01 12:00:00'' [ascii ''abc'']
     \<lparr>reachable = True, recipes = [], executed = []\<rparr> =
     (Inl (ValidationError [''id'']), \<lparr>reachable = True, recipes = [], executed = []\<rparr>) \<and>
   StringToNumber (ascii ''7'') = Fin 7 \<and>
   get_api_recipes ''2025-03-01 12:00:00'' [ascii ''7'']
     \<lparr>reachable = True, recipes = [], executed = []\<rparr> =
     (Inr (Json JUndefined 200),
      \<lparr>reachable = True, recipes = [], executed = [SelectWhereId (Fin 7)]\<rparr>) \<and>
   get_api_recipes ''2025-03-01 12:00:00'' [ascii ''1e400'']
     \<lparr>reachable = True, recipes = [], executed = []\<rparr> =
     (Inr (Json JUndefined 200),
      \<lparr>reachable = True, recipes = [], executed = [SelectWhereId PosInf]\<rparr>)"
proof -
  let ?db = "\<lparr>reachable = True, recipes = [], executed = []\<rparr>"
  let ?now = "''2025-03-01 12:00:00''"
  have nan: "StringToNumber (ascii ''abc'') = NaN"
    by (simp add: StringToNumber_defs)
  have seven: "StringToNumber (ascii ''7'') = Fin 7"
    by (simp add: StringToNumber_defs round_binary64_defs)
  have ne: "ascii ''abc'' \<noteq> []" "ascii ''7'' \<noteq> []" "ascii ''1e400'' \<noteq> []"
    by (simp_all add: ascii_def)
  from nan ne getRecipe_validation [of "ascii ''abc''" ?now ?db]
  have rejected: "get_api_recipes ?now [ascii ''abc''] ?db = (Inl (ValidationError [''id'']), ?db)"
    by blast
  from seven ne getRecipe_validation [of "ascii ''7''" ?now ?db]
  have "get_api_recipes ?now [ascii ''7''] ?db =
      (if reachable ?db
       then Inr (Json (first_row (filter (\<lambda>r. Fin (of_int (recipe_id r)) = Fin 7) (recipes ?db))) 200)
       else Inl StorageUnavailable,
       send (SelectWhereId (Fin 7)) ?db)"
    by blast
  then have looked_up: "get_api_recipes ?now [ascii ''7''] ?db =
      (Inr (Json JUndefined 200), \<lparr>reachable = True, recipes = [], executed = [SelectWhereId (Fin 7)]\<rparr>)"
    by (simp add: first_row_def send_def)
  from StringToNumber_overflows ne getRecipe_validation [of "ascii ''1e400''" ?now ?db]
  have "get_api_recipes ?now [ascii ''1e400''] ?db =
      (if reachable ?db
       then Inr (Json (first_row (filter (\<lambda>r. Fin (of_int (recipe_id r)) = PosInf) (recipes ?db))) 200)
       else Inl StorageUnavailable,
       send (SelectWhereId PosInf) ?db)"
    by blast
  then have overflow: "get_api_recipes ?now [ascii ''1e400''] ?db =
      (Inr (Json JUndefined 200), \<lparr>reachable = True, recipes = [], executed = [SelectWhereId PosInf]\<rparr>)"
    by (simp add: first_row_def send_def)
  from nan rejected seven looked_up overflow show ?thesis by blast
qed

text \<open>
  C2 as stated fails: the ids \<^verbatim>\<open>0\<close>, \<^verbatim>\<open>-5\<close> and \<^verbatim>\<open>1.5\<close> are not positive integers, yet each
  passes validation and the select is sent to the database; and the path with an empty id,
  \<^verbatim>\<open>/api/recipes/\<close>, is answered 404 and not with a validation error.
\<close>

theorem getRecipe_nonpositive_id_counterexample:
  "get_api_recipes ''2025-03-01 12:00:00'' [ascii ''0'']
     \<lparr>reachable = True, recipes = [], executed = []\<rparr> =
     (Inr (Json JUndefined 200),
      \<lparr>reachable = True, recipes = [], executed = [SelectWhereId (Fin 0)]\<rparr>) \<and>
   get_api_recipes ''2025-03-01 12:00:00'' [ascii ''-5'']
     \<lparr>reachable = True, recipes = [], executed = []\<rparr> =
     (Inr (Json JUndefined 200),
      \<lparr>reachable = True, recipes = [], executed = [SelectWhereId (Fin (- 5))]\<rparr>) \<and>
   get_api_recipes ''2025-03-01 12:00:00'' [ascii ''1.5'']
     \<lparr>reachable = True, recipes = [], executed = []\<rparr> =
     (Inr (Json JUndefined 200),
      \<lparr>reachable = True, recipes = [], executed = [SelectWhereId (Fin (3 / 2))]\<rparr>) \<and>
   get_api_recipes ''2025-03-01 12:00:00'' [ascii '''']
     \<lparr>reachable = True, recipes = [], executed = []\<rparr> =
     (Inr (Text ''404 Not Found'' 404), \<lparr>reachable = True, recipes = [], executed = []\<rparr>)"
proof -
  let ?db = "\<lparr>reachable = True, recipes = [], executed = []\<rparr>"
  let ?now = "''2025-03-01 12:00:00''"
  have zero: "StringToNumber (ascii ''0'') = Fin 0"
    by (simp add: StringToNumber_defs round_binary64_defs)
  have minus: "StringToNumber (ascii ''-5'') = Fin (- 5)"
    by (simp add: StringToNumber_defs round_binary64_defs)
  have half: "StringToNumber (ascii ''1.5'') = Fin (3 / 2)"
    by (simp add: StringToNumber_defs round_binary64_defs)
  have "get_api_recipes ?now [ascii ''0''] ?db =
     (Inr (Json JUndefined 200),
      \<lparr>reachable = True, recipes = [], executed = [SelectWhereId (Fin 0)]\<rparr>)"
    by (simp add: get_api_recipes_def getRecipe_def z_coerce_number_def zero
        select_where_id_def send_def first_row_def) (simp add: ascii_def)
  moreover have "get_api_recipes ?now [ascii ''-5''] ?db =
     (Inr (Json JUndefined 200),
      \<lparr>reachable = True, recipes = [], executed = [SelectWhereId (Fin (- 5))]\<rparr>)"
    by (simp add: get_api_recipes_def getRecipe_def z_coerce_number_def minus
        select_where_id_def send_def first_row_def) (simp add: ascii_def)
  moreover have "get_api_recipes ?now [ascii ''1.5''] ?db =
     (Inr (Json JUndefined 200),
      \<lparr>reachable = True, recipes = [], executed = [SelectWhereId (Fin (3 / 2))]\<rparr>)"
    by (simp add: get_api_recipes_def getRecipe_def z_coerce_number_def half
        select_where_id_def send_def first_row_def) (simp add: ascii_def)
  moreover have "get_api_recipes ?now [ascii ''''] ?db =
     (Inr (Text ''404 Not Found'' 404), ?db)"
    by (simp add: get_api_recipes_def ascii_def)
  ultimately show ?thesis by blast
qed

text \<open>
  C3. When the id passes validation, the database can be reached and no row has the number
  the id was coerced to, the route answers 200 with \<^verbatim>\<open>undefined\<close> as the body
  (\<^verbatim>\<open>const [user] = []\<close>): no validation error and no other error.
\<close>

theorem getRecipe_not_found:
  assumes "z_coerce_number (params ''id'') = Some n"
    and "reachable db"
    and "\<forall>r \<in> set (recipes db). Fin (of_int (recipe_id r)) \<noteq> n"
  shows "getRecipe params db = (Inr (Json JUndefined 200), send (SelectWhereId n) db)"
proof -
  from assms(3) have "filter (\<lambda>r. Fin (of_int (recipe_id r)) = n) (recipes db) = []"
    by (simp add: filter_empty_conv)
  with assms(2) show ?thesis
    by (simp add: getRecipe_valid [of params n db, OF assms(1)] first_row_def)
qed

text \<open>The theorem at id \<^verbatim>\<open>42\<close> on a table whose only row has id 1.\<close>

theorem getRecipe_not_found_witness:
  "z_coerce_number ((Map.empty(''id'' \<mapsto> ascii ''42'')) ''id'') = Some (Fin 42) \<and>
   getRecipe (Map.empty(''id'' \<mapsto> ascii ''42''))
     \<lparr>reachable = True,
        recipes = [\<lparr>recipe_id = 1, recipe_name = Some ''Ramen'',
                    recipe_ingredience = Some ''Soba, broth, pork, eggs'',
                    recipe_createdAt = Some ''2025-03-01 12:00:00'',
                    recipe_updatedAt = Some ''2025-03-01 12:00:00''\<rparr>],
        executed = []\<rparr> =
   (Inr (Json JUndefined 200),
    \<lparr>reachable = True,
       recipes = [\<lparr>recipe_id = 1, recipe_name = Some ''Ramen'',
                   recipe_ingredience = Some ''Soba, broth, pork, eggs'',
                   recipe_createdAt = Some ''2025-03-01 12:00:00'',
                   recipe_updatedAt = Some ''2025-03-01 12:00:00''\<rparr>],
       executed = [SelectWhereId (Fin 42)]\<rparr>)"
proof -
  let ?params = "Map.empty(''id'' \<mapsto> ascii ''42'')"
  let ?db = "\<lparr>reachable = True,
        recipes = [\<lparr>recipe_id = 1, recipe_name = Some ''Ramen'',
                    recipe_ingredience = Some ''Soba, broth, pork, eggs'',
                    recipe_createdAt = Some ''2025-03-01 12:00:00'',
                    recipe_updatedAt = Some ''2025-03-01 12:00:00''\<rparr>],
        executed = []\<rparr>"
  have "StringToNumber (ascii ''42'') = Fin 42"
    by (simp add: StringToNumber_defs round_binary64_defs)
  then have valid: "z_coerce_number (?params ''id'') = Some (Fin 42)"
    by (simp add: z_coerce_number_def)
  have up: "reachable ?db"
    by simp
  have none: "\<forall>r \<in> set (recipes ?db). Fin (of_int (recipe_id r)) \<noteq> Fin 42"
    by simp
  from getRecipe_not_found [of ?params "Fin 42" ?db, OF valid up none] valid show ?thesis
    by (simp add: send_def)
qed

text \<open>
  An id that is not the decimal text of a row's id can still select that row: the text is
  rounded to binary64 before the lookup, so \<^verbatim>\<open>1.00000000000000001\<close> finds the recipe with
  id 1. Such a request is not one of those C3 speaks of.
\<close>

lemma getRecipe_rounded_id_found:
  "fst (getRecipe (Map.empty(''id'' \<mapsto> ascii ''1.00000000000000001''))
     \<lparr>reachable = True,
        recipes = [\<lparr>recipe_id = 1, recipe_name = Some ''Ramen'',
                    recipe_ingredience = Some ''Soba, broth, pork, eggs'',
                    recipe_createdAt = Some ''2025-03-01 12:00:00'',
                    recipe_updatedAt = Some ''2025-03-01 12:00:00''\<rparr>],
        executed = []\<rparr>) =
   Inr (Json (recipe_json
          \<lparr>recipe_id = 1, recipe_name = Some ''Ramen'',
             recipe_ingredience = Some ''Soba, broth, pork, eggs'',
             recipe_createdAt = Some ''2025-03-01 12:00:00'',
             recipe_updatedAt = Some ''2025-03-01 12:00:00''\<rparr>) 200)"
  by (simp add: getRecipe_def z_coerce_number_def StringToNumber_rounds_fraction
      select_where_id_def first_row_def)

section \<open>What an insert does to the table\<close>

lemma recipe_id_less_next_rowid:
  assumes "r \<in> set rs"
  shows "recipe_id r < next_rowid rs"
proof (cases rs)
  case Nil
  with assms show ?thesis by simp
next
  case (Cons a as)
  have "Max (set (recipe_id a # map recipe_id as)) = fold max (map recipe_id as) (recipe_id a)"
    by (rule Max.set_eq_fold)
  moreover from assms Cons have "recipe_id r \<le> Max (set (recipe_id a # map recipe_id as))"
    by (intro Max_ge) auto
  ultimately show ?thesis using Cons by (simp add: next_rowid_def)
qed

lemma next_rowid_fresh: "next_rowid rs \<notin> recipe_id ` set rs"
  using recipe_id_less_next_rowid by fastforce

lemma insert_values_cases:
  "snd (insert_values now n i db) = send (InsertValues n i) db \<and>
     isl (fst (insert_values now n i db)) \<or>
   (\<exists>n' i'. n = Some n' \<and> i = Some i' \<and> reachable db \<and>
      insert_values now n i db =
        (Inr [\<lparr>recipe_id = next_rowid (recipes db), recipe_name = Some n',
                recipe_ingredience = Some i', recipe_createdAt = Some now,
                recipe_updatedAt = Some now\<rparr>],
         db\<lparr>recipes := recipes db @
                [\<lparr>recipe_id = next_rowid (recipes db), recipe_name = Some n',
                   recipe_ingredience = Some i', recipe_createdAt = Some now,
                   recipe_updatedAt = Some now\<rparr>],
              executed := executed db @ [InsertValues n i]\<rparr>))"
  by (cases n; cases i) (auto simp: insert_values_def send_def Let_def)

text \<open>
  C5. For a body whose \<open>name\<close> and \<open>ingredience\<close> are strings, on a database that can be
  reached, the route answers 201 with the whole new record: the name and ingredience of the
  caller, the id the storage assigned (the next rowid) and the storage's time stamp as
  \<open>createdAt\<close> and \<open>updatedAt\<close>; that record is the row now last in the table.
\<close>

theorem createRecipe_returns_record:
  assumes "get_prop kvs ''name'' = JString n" "get_prop kvs ''ingredience'' = JString i"
    and "reachable db"
  shows "fst (createRecipe now (JObject kvs) db) =
           Inr (Json (JObject [(''id'', JNumber (Fin (of_int (next_rowid (recipes db))))),
                               (''name'', JString n), (''ingredience'', JString i),
                               (''createdAt'', JString now), (''updatedAt'', JString now)]) 201) \<and>
         last (recipes (snd (createRecipe now (JObject kvs) db))) =
           \<lparr>recipe_id = next_rowid (recipes db), recipe_name = Some n,
              recipe_ingredience = Some i, recipe_createdAt = Some now,
              recipe_updatedAt = Some now\<rparr> \<and>
         fst (createRecipe now (JObject kvs) db) =
           Inr (Json (recipe_json (last (recipes (snd (createRecipe now (JObject kvs) db))))) 201)"
  by (simp add: createRecipe_valid [OF assms] recipe_json_def text_json_def)

text \<open>The theorem at the scenario of the specification: the first recipe gets id 1.\<close>

theorem createRecipe_returns_record_witness:
  "get_prop [(''name'', JString ''Ramen''), (''ingredience'', JString ''Soba, broth, pork, eggs'')]
     ''name'' = JString ''Ramen'' \<and>
   fst (createRecipe ''2025-03-01 12:00:00''
          (JObject [(''name'', JString ''Ramen''),
                    (''ingredience'', JString ''Soba, broth, pork, eggs'')])
          \<lparr>reachable = True, recipes = [], executed = []\<rparr>) =
     Inr (Json (JObject [(''id'', JNumber (Fin 1)), (''name'', JString ''Ramen''),
                         (''ingredience'', JString ''Soba, broth, pork, eggs''),
                         (''createdAt'', JString ''2025-03-01 12:00:00''),
                         (''updatedAt'', JString ''2025-03-01 12:00:00'')]) 201)"
proof -
  let ?kvs = "[(''name'', JString ''Ramen''), (''ingredience'', JString ''Soba, broth, pork, eggs'')]"
  let ?db = "\<lparr>reachable = True, recipes = [], executed = []\<rparr>"
  have n: "get_prop ?kvs ''name'' = JString ''Ramen''"
    by (simp add: get_prop_def)
  have i: "get_prop ?kvs ''ingredience'' = JString ''Soba, broth, pork, eggs''"
    by (simp add: get_prop_def)
  have up: "reachable ?db"
    by simp
  from createRecipe_returns_record [OF n i up, of "''2025-03-01 12:00:00''"] n
  show ?thesis by (simp add: next_rowid_def)
qed

text \<open>
  C8. Whenever the route succeeds, the database afterwards is the database before with one
  row appended to the table (the row returned) and one insert statement in the record of
  statements sent; the rows that were there and every other part of the database are as
  before.
\<close>

theorem createRecipe_adds_one_row:
  assumes "fst (createRecipe now body db) = Inr resp"
  shows "\<exists>r. resp = Json (recipe_json r) 201 \<and>
             snd (createRecipe now body db) =
               db\<lparr>recipes := recipes db @ [r],
                    executed := executed db @ [InsertValues (recipe_name r) (recipe_ingredience r)]\<rparr>"
proof (cases "zobject NewRecipeSchema body")
  case (Inl issues)
  with assms show ?thesis by (simp add: createRecipe_def)
next
  case (Inr valid)
  let ?n = "bound_text (get_prop valid ''name'')"
  let ?i = "bound_text (get_prop valid ''ingredience'')"
  from insert_values_cases [of now ?n ?i db] show ?thesis
  proof
    assume "snd (insert_values now ?n ?i db) = send (InsertValues ?n ?i) db \<and>
      isl (fst (insert_values now ?n ?i db))"
    with assms Inr show ?thesis
      by (auto simp: createRecipe_def isl_def split: prod.splits sum.splits)
  next
    assume "\<exists>n' i'. ?n = Some n' \<and> ?i = Some i' \<and> reachable db \<and>
      insert_values now ?n ?i db =
        (Inr [\<lparr>recipe_id = next_rowid (recipes db), recipe_name = Some n',
                recipe_ingredience = Some i', recipe_createdAt = Some now,
                recipe_updatedAt = Some now\<rparr>],
         db\<lparr>recipes := recipes db @
                [\<lparr>recipe_id = next_rowid (recipes db), recipe_name = Some n',
                   recipe_ingredience = Some i', recipe_createdAt = Some now,
                   recipe_updatedAt = Some now\<rparr>],
              executed := executed db @ [InsertValues ?n ?i]\<rparr>)"
    then obtain n' i' where ni: "?n = Some n'" "?i = Some i'"
      and ins: "insert_values now ?n ?i db =
        (Inr [\<lparr>recipe_id = next_rowid (recipes db), recipe_name = Some n',
                recipe_ingredience = Some i', recipe_createdAt = Some now,
                recipe_updatedAt = Some now\<rparr>],
         db\<lparr>recipes := recipes db @
                [\<lparr>recipe_id = next_rowid (recipes db), recipe_name = Some n',
                   recipe_ingredience = Some i', recipe_createdAt = Some now,
                   recipe_updatedAt = Some now\<rparr>],
              executed := executed db @ [InsertValues ?n ?i]\<rparr>)"
      by blast
    let ?r = "\<lparr>recipe_id = next_rowid (recipes db), recipe_name = Some n',
                recipe_ingredience = Some i', recipe_createdAt = Some now,
                recipe_updatedAt = Some now\<rparr>"
    from assms Inr ins ni show ?thesis
      by (intro exI [of _ ?r]) (simp add: createRecipe_def first_row_def)
  qed
qed

text \<open>The theorem at a second recipe added to a table that holds one.\<close>

theorem createRecipe_adds_one_row_witness:
  "fst (createRecipe ''2025-03-02 09:30:00''
          (JObject [(''name'', JString ''Udon''), (''ingredience'', JString ''Noodles, dashi'')])
          \<lparr>reachable = True,
             recipes = [\<lparr>recipe_id = 1, recipe_name = Some ''Ramen'',
                         recipe_ingredience = Some ''Soba, broth, pork, eggs'',
                         recipe_createdAt = Some ''2025-03-01 12:00:00'',
                         recipe_updatedAt = Some ''2025-03-01 12:00:00''\<rparr>],
             executed = []\<rparr>) =
     Inr (Json (recipe_json
            \<lparr>recipe_id = 2, recipe_name = Some ''Udon'',
               recipe_ingredience = Some ''Noodles, dashi'',
               recipe_createdAt = Some ''2025-03-02 09:30:00'',
               recipe_updatedAt = Some ''2025-03-02 09:30:00''\<rparr>) 201) \<and>
   (\<exists>r. snd (createRecipe ''2025-03-02 09:30:00''
               (JObject [(''name'', JString ''Udon''), (''ingredience'', JString ''Noodles, dashi'')])
               \<lparr>reachable = True,
                  recipes = [\<lparr>recipe_id = 1, recipe_name = Some ''Ramen'',
                              recipe_ingredience = Some ''Soba, broth, pork, eggs'',
                              recipe_createdAt = Some ''2025-03-01 12:00:00'',
                              recipe_updatedAt = Some ''2025-03-01 12:00:00''\<rparr>],
                  executed = []\<rparr>) =
        \<lparr>reachable = True,
           recipes = [\<lparr>recipe_id = 1, recipe_name = Some ''Ramen'',
                       recipe_ingredience = Some ''Soba, broth, pork, eggs'',
                       recipe_createdAt = Some ''2025-03-01 12:00:00'',
                       recipe_updatedAt = Some ''2025-03-01 12:00:00''\<rparr>, r],
           executed = [InsertValues (recipe_name r) (recipe_ingredience r)]\<rparr>)"
proof -
  let ?body = "JObject [(''name'', JString ''Udon''), (''ingredience'', JString ''Noodles, dashi'')]"
  let ?db = "\<lparr>reachable = True,
             recipes = [\<lparr>recipe_id = 1, recipe_name = Some ''Ramen'',
                         recipe_ingredience = Some ''Soba, broth, pork, eggs'',
                         recipe_createdAt = Some ''2025-03-01 12:00:00'',
                         recipe_updatedAt = Some ''2025-03-01 12:00:00''\<rparr>],
             executed = []\<rparr>"
  let ?new = "\<lparr>recipe_id = 2, recipe_name = Some ''Udon'',
               recipe_ingredience = Some ''Noodles, dashi'',
               recipe_createdAt = Some ''2025-03-02 09:30:00'',
               recipe_updatedAt = Some ''2025-03-02 09:30:00''\<rparr>"
  have ok: "fst (createRecipe ''2025-03-02 09:30:00'' ?body ?db) = Inr (Json (recipe_json ?new) 201)"
    by (simp add: createRecipe_def zobject_def NewRecipeSchema_def get_prop_def bound_text_def
        insert_values_def send_def next_rowid_def first_row_def Let_def)
  from createRecipe_adds_one_row [OF ok]
  obtain r where "snd (createRecipe ''2025-03-02 09:30:00'' ?body ?db) =
      ?db\<lparr>recipes := recipes ?db @ [r],
           executed := executed ?db @ [InsertValues (recipe_name r) (recipe_ingredience r)]\<rparr>"
    by blast
  then have "snd (createRecipe ''2025-03-02 09:30:00'' ?body ?db) =
      \<lparr>reachable = True,
         recipes = [\<lparr>recipe_id = 1, recipe_name = Some ''Ramen'',
                     recipe_ingredience = Some ''Soba, broth, pork, eggs'',
                     recipe_createdAt = Some ''2025-03-01 12:00:00'',
                     recipe_updatedAt = Some ''2025-03-01 12:00:00''\<rparr>, r],
         executed = [InsertValues (recipe_name r) (recipe_ingredience r)]\<rparr>"
    by simp
  with ok show ?thesis by blast
qed

section \<open>Create, then fetch\<close>

lemma filter_new_row:
  assumes "recipe_id r = next_rowid rs"
  shows "filter (\<lambda>x. Fin (of_int (recipe_id x)) = Fin (of_int (recipe_id r))) (rs @ [r]) = [r]"
proof -
  have "\<forall>x \<in> set rs. recipe_id x \<noteq> recipe_id r"
    using recipe_id_less_next_rowid [of _ rs] assms by fastforce
  then have "filter (\<lambda>x. recipe_id x = recipe_id r) rs = []"
    by (simp add: filter_empty_conv)
  then show ?thesis by simp
qed

text \<open>
  C4. For a body whose \<open>name\<close> and \<open>ingredience\<close> are strings and a database that can be
  reached: the create succeeds with some record, and a \<^verbatim>\<open>GET /api/recipes/{id}\<close> with the
  id of that record, written in decimal, on the database the create left, answers with the
  same record. The id the storage assigns is below \<open>2 ^ 53\<close> in size, as it is on every
  table the routes can build: only then is it the number that the client reads and that
  \<^verbatim>\<open>Number\<close> gives back.
\<close>

theorem create_then_get:
  assumes "get_prop kvs ''name'' = JString n" "get_prop kvs ''ingredience'' = JString i"
    and "reachable db"
    and "\<bar>next_rowid (recipes db)\<bar> < 2 ^ 53"
  shows "\<exists>r db'.
           createRecipe now (JObject kvs) db = (Inr (Json (recipe_json r) 201), db') \<and>
           getRecipe (Map.empty(''id'' \<mapsto> id_text (recipe_id r))) db' =
             (Inr (Json (recipe_json r) 200),
              send (SelectWhereId (Fin (of_int (recipe_id r)))) db')"
proof -
  let ?r = "\<lparr>recipe_id = next_rowid (recipes db), recipe_name = Some n,
              recipe_ingredience = Some i, recipe_createdAt = Some now,
              recipe_updatedAt = Some now\<rparr>"
  let ?db' = "db\<lparr>recipes := recipes db @ [?r],
                  executed := executed db @ [InsertValues (Some n) (Some i)]\<rparr>"
  let ?params = "Map.empty(''id'' \<mapsto> id_text (recipe_id ?r))"
  have created: "createRecipe now (JObject kvs) db = (Inr (Json (recipe_json ?r) 201), ?db')"
    by (rule createRecipe_valid [OF assms(1-3)])
  from assms(4) have "StringToNumber (id_text (recipe_id ?r)) = Fin (of_int (recipe_id ?r))"
    by (simp add: StringToNumber_id_text)
  then have "z_coerce_number (?params ''id'') = Some (Fin (of_int (recipe_id ?r)))"
    by (simp add: z_coerce_number_Some)
  then have "getRecipe ?params ?db' =
      (if reachable ?db'
       then Inr (Json (first_row
              (filter (\<lambda>x. Fin (of_int (recipe_id x)) = Fin (of_int (recipe_id ?r))) (recipes ?db'))) 200)
       else Inl StorageUnavailable,
       send (SelectWhereId (Fin (of_int (recipe_id ?r)))) ?db')"
    by (rule getRecipe_valid [of ?params "Fin (of_int (recipe_id ?r))" ?db'])
  moreover have "filter (\<lambda>x. Fin (of_int (recipe_id x)) = Fin (of_int (recipe_id ?r))) (recipes ?db') = [?r]"
    using filter_new_row [of ?r "recipes db"] by simp
  ultimately have fetched: "getRecipe ?params ?db' =
      (Inr (Json (recipe_json ?r) 200), send (SelectWhereId (Fin (of_int (recipe_id ?r)))) ?db')"
    using assms(3) by (simp add: first_row_def)
  from created fetched show ?thesis by blast
qed

text \<open>The theorem at the scenario of the specification, on an empty table.\<close>

theorem create_then_get_witness:
  "reachable \<lparr>reachable = True, recipes = [], executed = []\<rparr> \<and>
   next_rowid (recipes \<lparr>reachable = True, recipes = [], executed = []\<rparr>) = 1 \<and>
   (\<exists>r db'.
      createRecipe ''2025-03-01 12:00:00''
        (JObject [(''name'', JString ''Ramen''),
                  (''ingredience'', JString ''Soba, broth, pork, eggs'')])
        \<lparr>reachable = True, recipes = [], executed = []\<rparr> =
        (Inr (Json (recipe_json r) 201), db') \<and>
      getRecipe (Map.empty(''id'' \<mapsto> id_text (recipe_id r))) db' =
        (Inr (Json (recipe_json r) 200),
         send (SelectWhereId (Fin (of_int (recipe_id r)))) db'))"
proof -
  let ?kvs = "[(''name'', JString ''Ramen''), (''ingredience'', JString ''Soba, broth, pork, eggs'')]"
  let ?db = "\<lparr>reachable = True, recipes = [], executed = []\<rparr>"
  have n: "get_prop ?kvs ''name'' = JString ''Ramen''"
    by (simp add: get_prop_def)
  have i: "get_prop ?kvs ''ingredience'' = JString ''Soba, broth, pork, eggs''"
    by (simp add: get_prop_def)
  have up: "reachable ?db"
    by simp
  have first: "next_rowid (recipes ?db) = 1"
    by (simp add: next_rowid_def)
  then have small: "\<bar>next_rowid (recipes ?db)\<bar> < 2 ^ 53"
    by simp
  from create_then_get [OF n i up small, of "''2025-03-01 12:00:00''"] up first
  show ?thesis by blast
qed

section \<open>The invariant of the table\<close>

lemma insert_values_recipes:
  "recipes (snd (insert_values now n i db)) = recipes db \<or>
   (\<exists>n' i'. recipes (snd (insert_values now n i db)) =
      recipes db @ [\<lparr>recipe_id = next_rowid (recipes db), recipe_name = Some n',
                      recipe_ingredience = Some i', recipe_createdAt = Some now,
                      recipe_updatedAt = Some now\<rparr>])"
  by (cases n; cases i) (auto simp: insert_values_def send_def Let_def)

text \<open>Every route leaves the table as it is or appends one row with the next rowid.\<close>

lemma handle_recipes:
  "recipes (snd (handle now req db)) = recipes db \<or>
   (\<exists>n i. recipes (snd (handle now req db)) =
      recipes db @ [\<lparr>recipe_id = next_rowid (recipes db), recipe_name = Some n,
                      recipe_ingredience = Some i, recipe_createdAt = Some now,
                      recipe_updatedAt = Some now\<rparr>])"
proof (cases req)
  case GetRoot
  then show ?thesis by (simp add: recipes_page_def select_all_def send_def)
next
  case (PostAddRecipe form)
  with insert_values_recipes [of now "form ''name''" "form ''ingredience''" db]
  show ?thesis by (auto simp: add_recipe_def split: prod.splits sum.splits)
next
  case GetRecipesPage
  then show ?thesis by (simp add: recipes_page_def select_all_def send_def)
next
  case GetApiRecipes
  then show ?thesis by (simp add: getRecipes_def select_all_def send_def)
next
  case (GetApiRecipe params)
  then show ?thesis
    by (simp add: getRecipe_def select_where_id_def send_def split: option.splits)
next
  case (PostApiRecipe body)
  show ?thesis
  proof (cases "zobject NewRecipeSchema body")
    case (Inl issues)
    with PostApiRecipe show ?thesis by (simp add: createRecipe_def)
  next
    case (Inr valid)
    with PostApiRecipe
      insert_values_recipes [of now "bound_text (get_prop valid ''name'')"
        "bound_text (get_prop valid ''ingredience'')" db]
    show ?thesis by (auto simp: createRecipe_def split: prod.splits sum.splits)
  qed
qed

lemma recipes_inv_append:
  assumes "recipes_inv rs" "recipe_name r \<noteq> None" "recipe_ingredience r \<noteq> None"
    and "recipe_id r = next_rowid rs"
  shows "recipes_inv (rs @ [r])"
  using assms next_rowid_fresh [of rs] by (simp add: recipes_inv_def)

text \<open>
  C6. For every route and every state of the database:
  the invariant (distinct ids, name and ingredience not NULL) is kept;
  the table afterwards is the table before, possibly followed by new rows, and the id of a
  new row is larger than every id already there, so no id is given twice;
  two creates in a row, with valid bodies on a reachable database, return ids of which the
  second is larger;
  and a body with \<open>name\<close> and \<open>ingredience\<close> and nothing else is enough for a create to
  succeed: id, createdAt and updatedAt come from the storage.
\<close>

theorem recipes_inv_preserved:
  "(recipes_inv (recipes db) \<longrightarrow> recipes_inv (recipes (snd (handle now req db)))) \<and>
   (\<exists>new. recipes (snd (handle now req db)) = recipes db @ new \<and>
      (\<forall>r \<in> set new. \<forall>old \<in> set (recipes db). recipe_id old < recipe_id r)) \<and>
   (reachable db \<longrightarrow>
      (\<exists>r1 db1 r2 db2.
         createRecipe now (JObject [(''name'', JString n1), (''ingredience'', JString i1)]) db =
           (Inr (Json (recipe_json r1) 201), db1) \<and>
         createRecipe now2 (JObject [(''name'', JString n2), (''ingredience'', JString i2)]) db1 =
           (Inr (Json (recipe_json r2) 201), db2) \<and>
         recipe_id r1 < recipe_id r2 \<and>
         recipes db2 = recipes db @ [r1, r2]))"
proof (intro conjI impI)
  assume inv: "recipes_inv (recipes db)"
  from handle_recipes [of now req db]
  show "recipes_inv (recipes (snd (handle now req db)))"
  proof
    assume "recipes (snd (handle now req db)) = recipes db"
    with inv show ?thesis by simp
  next
    assume "\<exists>n i. recipes (snd (handle now req db)) =
      recipes db @ [\<lparr>recipe_id = next_rowid (recipes db), recipe_name = Some n,
                      recipe_ingredience = Some i, recipe_createdAt = Some now,
                      recipe_updatedAt = Some now\<rparr>]"
    then obtain n i where "recipes (snd (handle now req db)) =
      recipes db @ [\<lparr>recipe_id = next_rowid (recipes db), recipe_name = Some n,
                      recipe_ingredience = Some i, recipe_createdAt = Some now,
                      recipe_updatedAt = Some now\<rparr>]"
      by blast
    with inv show ?thesis by (simp add: recipes_inv_append)
  qed
next
  from handle_recipes [of now req db]
  show "\<exists>new. recipes (snd (handle now req db)) = recipes db @ new \<and>
      (\<forall>r \<in> set new. \<forall>old \<in> set (recipes db). recipe_id old < recipe_id r)"
  proof
    assume "recipes (snd (handle now req db)) = recipes db"
    then show ?thesis by (intro exI [of _ "[]"]) simp
  next
    assume "\<exists>n i. recipes (snd (handle now req db)) =
      recipes db @ [\<lparr>recipe_id = next_rowid (recipes db), recipe_name = Some n,
                      recipe_ingredience = Some i, recipe_createdAt = Some now,
                      recipe_updatedAt = Some now\<rparr>]"
    then obtain n i where "recipes (snd (handle now req db)) =
      recipes db @ [\<lparr>recipe_id = next_rowid (recipes db), recipe_name = Some n,
                      recipe_ingredience = Some i, recipe_createdAt = Some now,
                      recipe_updatedAt = Some now\<rparr>]"
      by blast
    then show ?thesis
      by (intro exI [of _ "[\<lparr>recipe_id = next_rowid (recipes db), recipe_name = Some n,
                      recipe_ingredience = Some i, recipe_createdAt = Some now,
                      recipe_updatedAt = Some now\<rparr>]"])
        (simp add: recipe_id_less_next_rowid)
  qed
next
  assume up: "reachable db"
  let ?k1 = "[(''name'', JString n1), (''ingredience'', JString i1)]"
  let ?k2 = "[(''name'', JString n2), (''ingredience'', JString i2)]"
  let ?r1 = "\<lparr>recipe_id = next_rowid (recipes db), recipe_name = Some n1,
               recipe_ingredience = Some i1, recipe_createdAt = Some now,
               recipe_updatedAt = Some now\<rparr>"
  let ?db1 = "db\<lparr>recipes := recipes db @ [?r1],
                  executed := executed db @ [InsertValues (Some n1) (Some i1)]\<rparr>"
  let ?r2 = "\<lparr>recipe_id = next_rowid (recipes ?db1), recipe_name = Some n2,
               recipe_ingredience = Some i2, recipe_createdAt = Some now2,
               recipe_updatedAt = Some now2\<rparr>"
  let ?db2 = "?db1\<lparr>recipes := recipes ?db1 @ [?r2],
                    executed := executed ?db1 @ [InsertValues (Some n2) (Some i2)]\<rparr>"
  have first: "createRecipe now (JObject ?k1) db = (Inr (Json (recipe_json ?r1) 201), ?db1)"
    using up by (intro createRecipe_valid) (simp_all add: get_prop_def)
  have up1: "reachable ?db1"
    using up by simp
  have second: "createRecipe now2 (JObject ?k2) ?db1 = (Inr (Json (recipe_json ?r2) 201), ?db2)"
    using up1 by (intro createRecipe_valid) (simp_all add: get_prop_def)
  have "?r1 \<in> set (recipes ?db1)"
    by simp
  then have "recipe_id ?r1 < next_rowid (recipes ?db1)"
    by (rule recipe_id_less_next_rowid)
  then have less: "recipe_id ?r1 < recipe_id ?r2"
    by simp
  have rows: "recipes ?db2 = recipes db @ [?r1, ?r2]"
    by simp
  from first second less rows
  show "\<exists>r1 db1 r2 db2.
         createRecipe now (JObject ?k1) db = (Inr (Json (recipe_json r1) 201), db1) \<and>
         createRecipe now2 (JObject ?k2) db1 = (Inr (Json (recipe_json r2) 201), db2) \<and>
         recipe_id r1 < recipe_id r2 \<and>
         recipes db2 = recipes db @ [r1, r2]"
    by blast
qed

text \<open>
  The theorem at a form post that adds a second recipe to a table holding one, and at two
  creates in a row on that table.
\<close>

theorem recipes_inv_preserved_witness:
  "recipes_inv
     (recipes \<lparr>reachable = True,
                 recipes = [\<lparr>recipe_id = 1, recipe_name = Some ''Ramen'',
                             recipe_ingredience = Some ''Soba, broth, pork, eggs'',
                             recipe_createdAt = Some ''2025-03-01 12:00:00'',
                             recipe_updatedAt = Some ''2025-03-01 12:00:00''\<rparr>],
                 executed = []\<rparr>) \<and>
   recipes_inv
     (recipes (snd (handle ''2025-03-02 09:30:00''
        (PostAddRecipe (Map.empty(''name'' \<mapsto> ''Udon'', ''ingredience'' \<mapsto> ''Noodles, dashi'')))
        \<lparr>reachable = True,
           recipes = [\<lparr>recipe_id = 1, recipe_name = Some ''Ramen'',
                       recipe_ingredience = Some ''Soba, broth, pork, eggs'',
                       recipe_createdAt = Some ''2025-03-01 12:00:00'',
                       recipe_updatedAt = Some ''2025-03-01 12:00:00''\<rparr>],
           executed = []\<rparr>))) \<and>
   (\<exists>r1 db1 r2 db2.
      createRecipe ''2025-03-02 09:30:00''
        (JObject [(''name'', JString ''Udon''), (''ingredience'', JString ''Noodles, dashi'')])
        \<lparr>reachable = True,
           recipes = [\<lparr>recipe_id = 1, recipe_name = Some ''Ramen'',
                       recipe_ingredience = Some ''Soba, broth, pork, eggs'',
                       recipe_createdAt = Some ''2025-03-01 12:00:00'',
                       recipe_updatedAt = Some ''2025-03-01 12:00:00''\<rparr>],
           executed = []\<rparr> =
        (Inr (Json (recipe_json r1) 201), db1) \<and>
      createRecipe ''2025-03-02 09:31:00''
        (JObject [(''name'', JString ''Pho''), (''ingredience'', JString ''Rice noodles, beef'')])
        db1 =
        (Inr (Json (recipe_json r2) 201), db2) \<and>
      recipe_id r1 < recipe_id r2)"
proof -
  let ?db = "\<lparr>reachable = True,
           recipes = [\<lparr>recipe_id = 1, recipe_name = Some ''Ramen'',
                       recipe_ingredience = Some ''Soba, broth, pork, eggs'',
                       recipe_createdAt = Some ''2025-03-01 12:00:00'',
                       recipe_updatedAt = Some ''2025-03-01 12:00:00''\<rparr>],
           executed = []\<rparr>"
  let ?req = "PostAddRecipe (Map.empty(''name'' \<mapsto> ''Udon'', ''ingredience'' \<mapsto> ''Noodles, dashi''))"
  note step = recipes_inv_preserved [of ?db "''2025-03-02 09:30:00''" ?req
      "''Udon''" "''Noodles, dashi''" "''2025-03-02 09:31:00''" "''Pho''" "''Rice noodles, beef''"]
  have inv: "recipes_inv (recipes ?db)"
    by (simp add: recipes_inv_def)
  have up: "reachable ?db"
    by simp
  from step inv have kept: "recipes_inv (recipes (snd (handle ''2025-03-02 09:30:00'' ?req ?db)))"
    by blast
  from step up have twice: "\<exists>r1 db1 r2 db2.
      createRecipe ''2025-03-02 09:30:00''
        (JObject [(''name'', JString ''Udon''), (''ingredience'', JString ''Noodles, dashi'')]) ?db =
        (Inr (Json (recipe_json r1) 201), db1) \<and>
      createRecipe ''2025-03-02 09:31:00''
        (JObject [(''name'', JString ''Pho''), (''ingredience'', JString ''Rice noodles, beef'')]) db1 =
        (Inr (Json (recipe_json r2) 201), db2) \<and>
      recipe_id r1 < recipe_id r2"
    by blast
  from inv kept twice show ?thesis by blast
qed

section \<open>Listing the recipes\<close>

text \<open>
  C7. \<^verbatim>\<open>GET /api/recipes\<close> has no input but the database. When the database can be reached it
  answers 200 with every row of the table, in storage order; on an empty table that is the
  empty array. It fails exactly when the database cannot be reached, with the storage's
  error.
\<close>

theorem getRecipes_lists_all:
  "getRecipes db =
     (if reachable db then Inr (Json (JArray (map recipe_json (recipes db))) 200)
      else Inl StorageUnavailable,
      send SelectAll db) \<and>
   (reachable db \<and> recipes db = [] \<longrightarrow> fst (getRecipes db) = Inr (Json (JArray []) 200)) \<and>
   (isl (fst (getRecipes db)) \<longleftrightarrow> \<not> reachable db)"
  by (simp add: getRecipes_def select_all_def)

text \<open>The theorem at the empty table.\<close>

theorem getRecipes_lists_all_witness:
  "reachable \<lparr>reachable = True, recipes = [], executed = []\<rparr> \<and>
   recipes \<lparr>reachable = True, recipes = [], executed = []\<rparr> = [] \<and>
   getRecipes \<lparr>reachable = True, recipes = [], executed = []\<rparr> =
     (Inr (Json (JArray []) 200), \<lparr>reachable = True, recipes = [], executed = [SelectAll]\<rparr>)"
proof -
  let ?db = "\<lparr>reachable = True, recipes = [], executed = []\<rparr>"
  have up: "reachable ?db" and empty: "recipes ?db = []"
    by simp_all
  from getRecipes_lists_all [of ?db]
  have "getRecipes ?db =
     (if reachable ?db then Inr (Json (JArray (map recipe_json (recipes ?db))) 200)
      else Inl StorageUnavailable,
      send SelectAll ?db)"
    by blast
  then have "getRecipes ?db =
      (Inr (Json (JArray []) 200), \<lparr>reachable = True, recipes = [], executed = [SelectAll]\<rparr>)"
    by (simp add: send_def)
  with up empty show ?thesis by blast
qed

section \<open>The form route\<close>

text \<open>
  C9. \<^verbatim>\<open>POST /add-recipe\<close> is a second way to create a recipe. It never answers with a
  validation error, and it always sends the insert with the two form fields as they came.
  On a database that can be reached, a form without \<open>name\<close> or without \<open>ingredience\<close> gets
  as far as the storage, whose NOT NULL constraint rejects the row; a form with both fields
  is inserted whatever the texts are, the empty text included.
\<close>

theorem add_recipe_unvalidated:
  "(\<forall>issues. fst (add_recipe now form db) \<noteq> Inl (ValidationError issues)) \<and>
   executed (snd (add_recipe now form db)) =
     executed db @ [InsertValues (form ''name'') (form ''ingredience'')] \<and>
   (reachable db \<and> (form ''name'' = None \<or> form ''ingredience'' = None) \<longrightarrow>
      (\<exists>column. fst (add_recipe now form db) = Inl (NotNullConstraintFailed column)) \<and>
      recipes (snd (add_recipe now form db)) = recipes db) \<and>
   (\<forall>n i. reachable db \<and> form ''name'' = Some n \<and> form ''ingredience'' = Some i \<longrightarrow>
      add_recipe now form db =
        (Inr (Redirect ''/''),
         db\<lparr>recipes := recipes db @
                [\<lparr>recipe_id = next_rowid (recipes db), recipe_name = Some n,
                   recipe_ingredience = Some i, recipe_createdAt = Some now,
                   recipe_updatedAt = Some now\<rparr>],
              executed := executed db @ [InsertValues (Some n) (Some i)]\<rparr>))"
proof (intro conjI impI allI)
  show "fst (add_recipe now form db) \<noteq> Inl (ValidationError issues)" for issues
    by (simp add: add_recipe_def insert_values_def send_def Let_def)
  show "executed (snd (add_recipe now form db)) =
     executed db @ [InsertValues (form ''name'') (form ''ingredience'')]"
    by (simp add: add_recipe_def insert_values_def send_def Let_def)
next
  assume a: "reachable db \<and> (form ''name'' = None \<or> form ''ingredience'' = None)"
  then show "\<exists>column. fst (add_recipe now form db) = Inl (NotNullConstraintFailed column)"
    by (auto simp: add_recipe_def insert_values_def send_def Let_def)
  from a show "recipes (snd (add_recipe now form db)) = recipes db"
    by (auto simp: add_recipe_def insert_values_def send_def Let_def)
next
  fix n i
  assume "reachable db \<and> form ''name'' = Some n \<and> form ''ingredience'' = Some i"
  then show "add_recipe now form db =
        (Inr (Redirect ''/''),
         db\<lparr>recipes := recipes db @
                [\<lparr>recipe_id = next_rowid (recipes db), recipe_name = Some n,
                   recipe_ingredience = Some i, recipe_createdAt = Some now,
                   recipe_updatedAt = Some now\<rparr>],
              executed := executed db @ [InsertValues (Some n) (Some i)]\<rparr>)"
    by (simp add: add_recipe_def insert_values_def send_def Let_def)
qed

text \<open>
  The theorem at a form with only a name (the insert is sent and the storage rejects it)
  and at a form whose two fields are empty (a row with empty texts is stored).
\<close>

theorem add_recipe_unvalidated_witness:
  "(\<exists>column.
      fst (add_recipe ''2025-03-01 12:00:00'' (Map.empty(''name'' \<mapsto> ''Ramen''))
             \<lparr>reachable = True, recipes = [], executed = []\<rparr>) =
      Inl (NotNullConstraintFailed column)) \<and>
   executed (snd (add_recipe ''2025-03-01 12:00:00'' (Map.empty(''name'' \<mapsto> ''Ramen''))
                    \<lparr>reachable = True, recipes = [], executed = []\<rparr>)) =
     [InsertValues (Some ''Ramen'') None] \<and>
   recipes (snd (add_recipe ''2025-03-01 12:00:00'' (Map.empty(''name'' \<mapsto> ''Ramen''))
                   \<lparr>reachable = True, recipes = [], executed = []\<rparr>)) = [] \<and>
   add_recipe ''2025-03-01 12:00:00'' (Map.empty(''name'' \<mapsto> '''', ''ingredience'' \<mapsto> ''''))
     \<lparr>reachable = True, recipes = [], executed = []\<rparr> =
     (Inr (Redirect ''/''),
      \<lparr>reachable = True,
         recipes = [\<lparr>recipe_id = 1, recipe_name = Some '''', recipe_ingredience = Some '''',
                     recipe_createdAt = Some ''2025-03-01 12:00:00'',
                     recipe_updatedAt = Some ''2025-03-01 12:00:00''\<rparr>],
         executed = [InsertValues (Some '''') (Some '''')]\<rparr>)"
proof -
  let ?db = "\<lparr>reachable = True, recipes = [], executed = []\<rparr>"
  let ?now = "''2025-03-01 12:00:00''"
  let ?one = "Map.empty(''name'' \<mapsto> ''Ramen'')"
  let ?empty = "Map.empty(''name'' \<mapsto> '''', ''ingredience'' \<mapsto> '''')"
  have up: "reachable ?db"
    by simp
  have missing: "?one ''name'' = None \<or> ?one ''ingredience'' = None"
    by simp
  from add_recipe_unvalidated [of ?now ?one ?db] up missing
  have failed: "\<exists>column. fst (add_recipe ?now ?one ?db) = Inl (NotNullConstraintFailed column)"
    and kept: "recipes (snd (add_recipe ?now ?one ?db)) = recipes ?db"
    and sent: "executed (snd (add_recipe ?now ?one ?db)) =
      executed ?db @ [InsertValues (?one ''name'') (?one ''ingredience'')]"
    by blast+
  from kept have kept': "recipes (snd (add_recipe ?now ?one ?db)) = []"
    by simp
  from sent have sent': "executed (snd (add_recipe ?now ?one ?db)) = [InsertValues (Some ''Ramen'') None]"
    by simp
  have both: "reachable ?db \<and> ?empty ''name'' = Some '''' \<and> ?empty ''ingredience'' = Some ''''"
    by simp
  from add_recipe_unvalidated [of ?now ?empty ?db] both
  have "add_recipe ?now ?empty ?db =
        (Inr (Redirect ''/''),
         ?db\<lparr>recipes := recipes ?db @
                [\<lparr>recipe_id = next_rowid (recipes ?db), recipe_name = Some '''',
                   recipe_ingredience = Some '''', recipe_createdAt = Some ?now,
                   recipe_updatedAt = Some ?now\<rparr>],
              executed := executed ?db @ [InsertValues (Some '''') (Some '''')]\<rparr>)"
    by blast
  then have second: "add_recipe ?now ?empty ?db =
     (Inr (Redirect ''/''),
      \<lparr>reachable = True,
         recipes = [\<lparr>recipe_id = 1, recipe_name = Some '''', recipe_ingredience = Some '''',
                     recipe_createdAt = Some ?now, recipe_updatedAt = Some ?now\<rparr>],
         executed = [InsertValues (Some '''') (Some '''')]\<rparr>)"
    by (simp add: next_rowid_def)
  from failed sent' kept' second show ?thesis by blast
qed

section \<open>The declared response schema\<close>

lemma split_on_absent: "sep \<notin> set s \<Longrightarrow> split_on sep s = [s]"
  by (induction s) auto

text \<open>A text that matches the e-mail pattern has an \<^verbatim>\<open>@\<close> in it.\<close>

lemma is_email_has_at:
  assumes "is_email s"
  shows "CHR ''@'' \<in> set s"
proof (rule ccontr)
  assume "CHR ''@'' \<notin> set s"
  then have "split_on (CHR ''@'') s = [s]" by (rule split_on_absent)
  with assms show False by (simp add: is_email_def)
qed

lemma RecipeSchema_ingredience:
  assumes "recipe_ingredience r = Some t" "\<not> is_email t"
  shows "isl (zobject RecipeSchema (recipe_json r))"
proof -
  have "get_prop [(''id'', JNumber (Fin (of_int (recipe_id r)))),
              (''name'', text_json (recipe_name r)),
              (''ingredience'', text_json (recipe_ingredience r)),
              (''createdAt'', text_json (recipe_createdAt r)),
              (''updatedAt'', text_json (recipe_updatedAt r))] ''ingredience'' = JString t"
    using assms(1) by (simp add: get_prop_def text_json_def)
  with assms(2) show ?thesis
    by (simp add: zobject_def RecipeSchema_def recipe_json_def Let_def)
qed

text \<open>
  The keys the schema does not name are no obstacle by themselves: a record whose name is
  present and whose ingredience is an e-mail address is parsed, and the time stamps are
  dropped from the result.
\<close>

lemma RecipeSchema_strips_timestamps:
  assumes "recipe_name r = Some n" "recipe_ingredience r = Some t" "is_email t"
  shows "zobject RecipeSchema (recipe_json r) =
           Inr [(''id'', JNumber (Fin (of_int (recipe_id r)))), (''name'', JString n),
                (''ingredience'', JString t)]"
  using assms
  by (simp add: zobject_def RecipeSchema_def recipe_json_def get_prop_def text_json_def)

text \<open>
  C10. \<^verbatim>\<open>RecipeSchema\<close> has the keys \<open>id\<close>, \<open>name\<close> and \<open>ingredience\<close> only (no \<open>createdAt\<close>, no
  \<open>updatedAt\<close>) and wants \<open>ingredience\<close> to be an e-mail address. A text without \<^verbatim>\<open>@\<close> is
  no e-mail address, the schema's own example value among them. So a persisted recipe whose
  ingredience is such a text does not conform to the response schema declared for
  \<^verbatim>\<open>POST /api/recipe\<close> and \<^verbatim>\<open>GET /api/recipes/{id}\<close>, a list that holds it does not conform to
  the one declared for \<^verbatim>\<open>GET /api/recipes\<close>, and what a successful create answers for such
  an ingredience does not conform to the schema of its own route.
\<close>

theorem RecipeSchema_rejects_recipes:
  "map fst RecipeSchema = [''id'', ''name'', ''ingredience''] \<and>
   map_of RecipeSchema ''ingredience'' = Some ZStringEmail \<and>
   \<not> is_email ''Soba, brouth, pork, eggs'' \<and>
   (CHR ''@'' \<notin> set t \<longrightarrow> \<not> is_email t) \<and>
   (recipe_ingredience r = Some t \<and> CHR ''@'' \<notin> set t \<longrightarrow>
      \<not> conforms (snd createRecipe_responses) (recipe_json r) \<and>
      \<not> conforms (snd getRecipe_responses) (recipe_json r) \<and>
      (r \<in> set rs \<longrightarrow> \<not> conforms (snd getRecipes_responses) (JArray (map recipe_json rs)))) \<and>
   (get_prop kvs ''name'' = JString n \<and> get_prop kvs ''ingredience'' = JString t \<and>
    reachable db \<and> CHR ''@'' \<notin> set t \<longrightarrow>
      (\<exists>v. fst (createRecipe now (JObject kvs) db) = Inr (Json v (fst createRecipe_responses)) \<and>
           \<not> conforms (snd createRecipe_responses) v))"
proof (intro conjI impI)
  show "map fst RecipeSchema = [''id'', ''name'', ''ingredience'']"
    by (simp add: RecipeSchema_def)
  show "map_of RecipeSchema ''ingredience'' = Some ZStringEmail"
    by (simp add: RecipeSchema_def)
  have "CHR ''@'' \<notin> set ''Soba, brouth, pork, eggs''"
    by simp
  then show "\<not> is_email ''Soba, brouth, pork, eggs''"
    using is_email_has_at by blast
  show "\<not> is_email t" if "CHR ''@'' \<notin> set t"
    using that is_email_has_at by blast
next
  assume a: "recipe_ingredience r = Some t \<and> CHR ''@'' \<notin> set t"
  then have "\<not> is_email t"
    using is_email_has_at by blast
  with a have bad: "isl (zobject RecipeSchema (recipe_json r))"
    by (simp add: RecipeSchema_ingredience)
  then show "\<not> conforms (snd createRecipe_responses) (recipe_json r)"
    by (simp add: createRecipe_responses_def)
  from bad show "\<not> conforms (snd getRecipe_responses) (recipe_json r)"
    by (simp add: getRecipe_responses_def)
  from bad show "\<not> conforms (snd getRecipes_responses) (JArray (map recipe_json rs))"
    if "r \<in> set rs"
    using that by (auto simp: getRecipes_responses_def list_all_iff)
next
  assume a: "get_prop kvs ''name'' = JString n \<and> get_prop kvs ''ingredience'' = JString t \<and>
    reachable db \<and> CHR ''@'' \<notin> set t"
  let ?r = "\<lparr>recipe_id = next_rowid (recipes db), recipe_name = Some n,
              recipe_ingredience = Some t, recipe_createdAt = Some now,
              recipe_updatedAt = Some now\<rparr>"
  from a have "fst (createRecipe now (JObject kvs) db) = Inr (Json (recipe_json ?r) 201)"
    by (simp add: createRecipe_valid)
  moreover from a have "\<not> is_email t"
    using is_email_has_at by blast
  then have "isl (zobject RecipeSchema (recipe_json ?r))"
    by (intro RecipeSchema_ingredience) simp_all
  ultimately show "\<exists>v. fst (createRecipe now (JObject kvs) db) =
      Inr (Json v (fst createRecipe_responses)) \<and> \<not> conforms (snd createRecipe_responses) v"
    by (simp add: createRecipe_responses_def)
qed

text \<open>The theorem at the recipe of the schema's example values.\<close>

theorem RecipeSchema_rejects_recipes_witness:
  "CHR ''@'' \<notin> set ''Soba, brouth, pork, eggs'' \<and>
   \<not> conforms (snd getRecipe_responses)
      (recipe_json \<lparr>recipe_id = 1, recipe_name = Some ''Ramen'',
                     recipe_ingredience = Some ''Soba, brouth, pork, eggs'',
                     recipe_createdAt = Some ''2025-03-01 12:00:00'',
                     recipe_updatedAt = Some ''2025-03-01 12:00:00''\<rparr>) \<and>
   \<not> conforms (snd getRecipes_responses)
      (JArray (map recipe_json
         [\<lparr>recipe_id = 1, recipe_name = Some ''Ramen'',
            recipe_ingredience = Some ''Soba, brouth, pork, eggs'',
            recipe_createdAt = Some ''2025-03-01 12:00:00'',
            recipe_updatedAt = Some ''2025-03-01 12:00:00''\<rparr>])) \<and>
   (\<exists>v. fst (createRecipe ''2025-03-01 12:00:00''
               (JObject [(''name'', JString ''Ramen''),
                         (''ingredience'', JString ''Soba, brouth, pork, eggs'')])
               \<lparr>reachable = True, recipes = [], executed = []\<rparr>) =
          Inr (Json v 201) \<and>
        \<not> conforms (snd createRecipe_responses) v)"
proof -
  let ?t = "''Soba, brouth, pork, eggs''"
  let ?r = "\<lparr>recipe_id = 1, recipe_name = Some ''Ramen'', recipe_ingredience = Some ?t,
              recipe_createdAt = Some ''2025-03-01 12:00:00'',
              recipe_updatedAt = Some ''2025-03-01 12:00:00''\<rparr>"
  let ?kvs = "[(''name'', JString ''Ramen''), (''ingredience'', JString ?t)]"
  let ?db = "\<lparr>reachable = True, recipes = [], executed = []\<rparr>"
  note schema = RecipeSchema_rejects_recipes [of ?t ?r "[?r]" ?kvs "''Ramen''" ?db "''2025-03-01 12:00:00''"]
  have no_at: "CHR ''@'' \<notin> set ?t"
    by simp
  have row: "recipe_ingredience ?r = Some ?t" and listed: "?r \<in> set [?r]"
    by simp_all
  have body: "get_prop ?kvs ''name'' = JString ''Ramen''" "get_prop ?kvs ''ingredience'' = JString ?t"
    by (simp_all add: get_prop_def)
  have up: "reachable ?db"
    by simp
  from schema no_at row have one: "\<not> conforms (snd getRecipe_responses) (recipe_json ?r)"
    by blast
  from schema no_at row listed
  have many: "\<not> conforms (snd getRecipes_responses) (JArray (map recipe_json [?r]))"
    by blast
  from schema no_at body up
  have "\<exists>v. fst (createRecipe ''2025-03-01 12:00:00'' (JObject ?kvs) ?db) =
          Inr (Json v (fst createRecipe_responses)) \<and> \<not> conforms (snd createRecipe_responses) v"
    by blast
  then have created: "\<exists>v. fst (createRecipe ''2025-03-01 12:00:00'' (JObject ?kvs) ?db) =
          Inr (Json v 201) \<and> \<not> conforms (snd createRecipe_responses) v"
    by (simp add: createRecipe_responses_def)
  from no_at one many created show ?thesis by blast
qed

end
